theory Spec2Isabelle
  imports Main
begin

section \<open>JavaScript values and objects\<close>

text \<open>
  The values the library handles are JavaScript values. Strings are byte strings. An
  object is the list of its
  own enumerable properties in enumeration order (the order of \<^verbatim>\<open>Object.entries\<close>);
  property names are assumed not to be array indices, so that a new property is
  enumerated last.
\<close>

text \<open>
  A JavaScript number, as far as the library can tell numbers apart: a whole number
  (\<open>Whole\<close>, with \<open>-0\<close> counted as \<open>0\<close>), \<open>NaN\<close>, or any other number, that is a fraction or
  an infinity, told apart by a name (\<open>Other\<close>). Zero and \<open>NaN\<close> are falsy, every other
  number is truthy.
\<close>

datatype number = Whole int | NaN | Other string

fun truthy_number :: "number \<Rightarrow> bool" where
  "truthy_number (Whole i) = (i \<noteq> 0)"
| "truthy_number NaN = False"
| "truthy_number (Other s) = True"

datatype jsval = JUndefined | JNull | JBool bool | JNum number | JStr string
  | JArr "jsval list" | JFunc

type_synonym obj = "(string \<times> jsval) list"

text \<open>JavaScript truthiness, as used by \<^verbatim>\<open>if (x)\<close>, \<^verbatim>\<open>!x\<close> and \<^verbatim>\<open>x || y\<close>.\<close>

fun truthy :: "jsval \<Rightarrow> bool" where
  "truthy JUndefined = False"
| "truthy JNull = False"
| "truthy (JBool b) = b"
| "truthy (JNum n) = truthy_number n"
| "truthy (JStr s) = (s \<noteq> [])"
| "truthy (JArr vs) = True"
| "truthy JFunc = True"

text \<open>\<^verbatim>\<open>o[k]\<close>: a missing property reads as undefined.\<close>

definition get_prop :: "obj \<Rightarrow> string \<Rightarrow> jsval" where
  "get_prop ob k = (case map_of ob k of None \<Rightarrow> JUndefined | Some v \<Rightarrow> v)"

text \<open>\<^verbatim>\<open>o[k] = v\<close>: an existing property keeps its place, a new one comes last.\<close>

fun set_prop :: "string \<Rightarrow> jsval \<Rightarrow> obj \<Rightarrow> obj" where
  "set_prop k v [] = [(k, v)]"
| "set_prop k v ((k', v') # rest) =
     (if k' = k then (k, v) # rest else (k', v') # set_prop k v rest)"

text \<open>\<^verbatim>\<open>Object.assign(target, source)\<close>; an undefined source copies nothing.\<close>

definition Object_assign :: "obj \<Rightarrow> obj \<Rightarrow> obj" where
  "Object_assign target source = foldl (\<lambda>t (k, v). set_prop k v t) target source"

definition Object_assign_opt :: "obj \<Rightarrow> obj option \<Rightarrow> obj" where
  "Object_assign_opt target source =
     (case source of None \<Rightarrow> target | Some s \<Rightarrow> Object_assign target s)"

section \<open>Rendering text\<close>

definition is_digit :: "char \<Rightarrow> bool" where
  "is_digit c = (c \<in> set ''0123456789'')"

definition digit_char :: "nat \<Rightarrow> char" where
  "digit_char d = ''0123456789'' ! d"

definition digit_val :: "char \<Rightarrow> nat" where
  "digit_val c = length (takeWhile (\<lambda>d. d \<noteq> c) ''0123456789'')"

text \<open>A number inside a template literal: its decimal digits.\<close>

function show_nat :: "nat \<Rightarrow> string" where
  "show_nat n =
     (if n < 10 then [digit_char n] else show_nat (n div 10) @ [digit_char (n mod 10)])"
  by pat_completeness auto
termination
  by (relation "measure id") auto

declare show_nat.simps [simp del]

definition show_int :: "int \<Rightarrow> string" where
  "show_int i = (if i < 0 then ''-'' @ show_nat (nat (- i)) else show_nat (nat i))"

definition parse_nat :: "string \<Rightarrow> nat" where
  "parse_nat s = foldl (\<lambda>acc c. 10 * acc + digit_val c) 0 s"

text \<open>\<^verbatim>\<open>xs.join(sep)\<close>.\<close>

fun join :: "string \<Rightarrow> string list \<Rightarrow> string" where
  "join sep [] = []"
| "join sep [x] = x"
| "join sep (x # y # ys) = x @ sep @ join sep (y # ys)"

text \<open>
  The positional placeholders of an SQL text, left to right: every match of the pattern
  \<^verbatim>\<open>\$\d+\<close>, read as a number. This is what the database server pairs with the
  parameter list: placeholder \<open>$k\<close> stands for the \<open>k\<close>-th parameter.
\<close>

function placeholders :: "string \<Rightarrow> nat list" where
  "placeholders [] = []"
| "placeholders (c # cs) =
     (if c = CHR ''$'' \<and> takeWhile is_digit cs \<noteq> []
      then parse_nat (takeWhile is_digit cs) # placeholders (dropWhile is_digit cs)
      else placeholders cs)"
  by pat_completeness auto
termination
  by (relation "measure length") (auto simp: length_dropWhile_le less_Suc_eq_le)

section \<open>The connection provider\<close>

text \<open>
  The pool, the server and the runtime are external. Their behaviour is a parameter
  (\<open>env\<close>): the answer to a statement, to a connection request and to a request for a
  random identifier, each as a function of what happened before, and the runtime's
  conversion of a number to a string. What the library does to them is recorded in the
  \<open>world\<close>: whether the pool exists, and the events in order.
\<close>

datatype error = Error string | DriverError string

record query_result =
  rows :: "obj list"
  rowCount :: "nat option"

datatype event = Connect nat | Query "nat option" string "jsval list" | Release nat

record world =
  connected :: bool
  events :: "event list"

record env =
  pg_query :: "event list \<Rightarrow> nat option \<Rightarrow> string \<Rightarrow> jsval list \<Rightarrow> error + query_result"
  pg_connect :: "event list \<Rightarrow> error + nat"
  randomUUID :: "event list \<Rightarrow> string"
  Number_toString :: "number \<Rightarrow> string"

text \<open>
  A number inside a template literal. A whole number of magnitude at most \<open>2\<^sup>5\<^sup>3\<close> is
  printed with all its digits (each of them is a double, and no shorter text reads back
  as the same double) and \<open>NaN\<close> as \<open>NaN\<close>; how the runtime prints the others (larger
  whole numbers, whose digits are rounded or given in exponent form, fractions,
  infinities) is left to the environment.
\<close>

definition show_number :: "env \<Rightarrow> number \<Rightarrow> string" where
  "show_number e n =
     (case n of
        Whole i \<Rightarrow>
          if \<bar>i\<bar> \<le> 9007199254740992 then show_int i else Number_toString e n
      | NaN \<Rightarrow> ''NaN''
      | Other s \<Rightarrow> Number_toString e n)"

definition not_connected :: error where
  "not_connected = Error ''Database not connected. Call connect() first.''"

text \<open>\<^verbatim>\<open>Database.query(text, params, client)\<close>: on the pinned client if there is one,
  else on the pool, which must exist.\<close>

definition Database_query ::
  "env \<Rightarrow> string \<Rightarrow> jsval list \<Rightarrow> nat option \<Rightarrow> world \<Rightarrow> (error + query_result) \<times> world" where
  "Database_query e text params cl w =
     (if cl = None \<and> \<not> connected w then (Inl not_connected, w)
      else (pg_query e (events w) cl text params,
            w\<lparr>events := events w @ [Query cl text params]\<rparr>))"

text \<open>\<^verbatim>\<open>Database.getClient()\<close>.\<close>

definition Database_getClient :: "env \<Rightarrow> world \<Rightarrow> (error + nat) \<times> world" where
  "Database_getClient e w =
     (if \<not> connected w then (Inl not_connected, w)
      else (case pg_connect e (events w) of
              Inl err \<Rightarrow> (Inl err, w)
            | Inr c \<Rightarrow> (Inr c, w\<lparr>events := events w @ [Connect c]\<rparr>)))"

text \<open>The rest of an asynchronous method after an awaited call: an error propagates.\<close>

definition and_then ::
  "(error + 'a) \<times> world \<Rightarrow> ('a \<Rightarrow> 'b) \<Rightarrow> (error + 'b) \<times> world" where
  "and_then r f = (case r of (Inl err, w) \<Rightarrow> (Inl err, w) | (Inr x, w) \<Rightarrow> (Inr (f x), w))"

section \<open>The query builder\<close>

datatype PrimaryKeyType = serial | uuid

record QueryBuilder =
  tableName :: string
  whereConditions :: "string list"
  whereParams :: "jsval list"
  orderByClause :: string
  limitClause :: string
  offsetClause :: string
  paramCounter :: nat
  client :: "nat option"
  primaryKeyType :: PrimaryKeyType
  primaryKey :: string

definition new_QueryBuilder ::
  "string \<Rightarrow> nat option \<Rightarrow> PrimaryKeyType \<Rightarrow> string \<Rightarrow> QueryBuilder" where
  "new_QueryBuilder t cl pkt pk =
     \<lparr>tableName = t, whereConditions = [], whereParams = [], orderByClause = [],
      limitClause = [], offsetClause = [], paramCounter = 1, client = cl,
      primaryKeyType = pkt, primaryKey = pk\<rparr>"

text \<open>The argument of \<^verbatim>\<open>where\<close>: a raw SQL string or a field-to-value object.\<close>

datatype condition = CString string | CObject obj

text \<open>The body of the loop over \<^verbatim>\<open>Object.entries(condition)\<close>.\<close>

definition where_entry :: "QueryBuilder \<Rightarrow> string \<times> jsval \<Rightarrow> QueryBuilder" where
  "where_entry qb kv =
     (case kv of (key, val) \<Rightarrow>
        if val = JNull \<or> val = JUndefined
        then qb\<lparr>whereConditions := whereConditions qb @ [key @ '' IS NULL'']\<rparr>
        else (case val of
            JArr vs \<Rightarrow>
              qb\<lparr>whereConditions := whereConditions qb @
                    [key @ '' IN ('' @
                     join '', '' (map (\<lambda>i. ''$'' @ show_nat i)
                                    [paramCounter qb ..< paramCounter qb + length vs]) @ '')''],
                  whereParams := whereParams qb @ vs,
                  paramCounter := paramCounter qb + length vs\<rparr>
          | _ \<Rightarrow>
              qb\<lparr>whereConditions := whereConditions qb @
                    [key @ '' = $'' @ show_nat (paramCounter qb)],
                  whereParams := whereParams qb @ [val],
                  paramCounter := paramCounter qb + 1\<rparr>))"

text \<open>\<^verbatim>\<open>where(condition, value?)\<close>; an absent value is undefined.\<close>

definition QueryBuilder_where :: "condition \<Rightarrow> jsval \<Rightarrow> QueryBuilder \<Rightarrow> QueryBuilder" where
  "QueryBuilder_where cond v qb =
     (case cond of
        CString s \<Rightarrow>
          qb\<lparr>whereConditions := whereConditions qb @ [s],
             whereParams := (if v \<noteq> JUndefined then whereParams qb @ [v] else whereParams qb)\<rparr>
      | CObject ob \<Rightarrow> foldl where_entry qb ob)"

datatype Direction = ASC | DESC

fun show_direction :: "Direction \<Rightarrow> string" where
  "show_direction ASC = ''ASC''"
| "show_direction DESC = ''DESC''"

record OrderBy =
  column :: string
  direction :: "Direction option"

definition default_direction :: "Direction option \<Rightarrow> Direction" where
  "default_direction d = (case d of None \<Rightarrow> ASC | Some x \<Rightarrow> x)"

definition QueryBuilder_orderBy :: "string \<Rightarrow> Direction option \<Rightarrow> QueryBuilder \<Rightarrow> QueryBuilder" where
  "QueryBuilder_orderBy col d qb =
     qb\<lparr>orderByClause := ''ORDER BY '' @ col @ '' '' @ show_direction (default_direction d)\<rparr>"

definition QueryBuilder_orderByMultiple :: "OrderBy list \<Rightarrow> QueryBuilder \<Rightarrow> QueryBuilder" where
  "QueryBuilder_orderByMultiple orders qb =
     qb\<lparr>orderByClause := ''ORDER BY '' @
          join '', '' (map (\<lambda>order. column order @ '' '' @
                               show_direction (default_direction (direction order))) orders)\<rparr>"

definition QueryBuilder_limit :: "env \<Rightarrow> number \<Rightarrow> QueryBuilder \<Rightarrow> QueryBuilder" where
  "QueryBuilder_limit e n qb = qb\<lparr>limitClause := ''LIMIT '' @ show_number e n\<rparr>"

definition QueryBuilder_offset :: "env \<Rightarrow> number \<Rightarrow> QueryBuilder \<Rightarrow> QueryBuilder" where
  "QueryBuilder_offset e n qb = qb\<lparr>offsetClause := ''OFFSET '' @ show_number e n\<rparr>"

definition buildWhereClause :: "QueryBuilder \<Rightarrow> string" where
  "buildWhereClause qb =
     (if length (whereConditions qb) = 0 then []
      else ''WHERE '' @ join '' AND '' (whereConditions qb))"

text \<open>The text \<^verbatim>\<open>select\<close> renders; an empty clause is left out.\<close>

definition select_query :: "string list \<Rightarrow> QueryBuilder \<Rightarrow> string" where
  "select_query columns qb =
     (let q0 = ''SELECT '' @ join '', '' columns @ '' FROM '' @ tableName qb;
          q1 = (if buildWhereClause qb \<noteq> [] then q0 @ '' '' @ buildWhereClause qb else q0);
          q2 = (if orderByClause qb \<noteq> [] then q1 @ '' '' @ orderByClause qb else q1);
          q3 = (if limitClause qb \<noteq> [] then q2 @ '' '' @ limitClause qb else q2)
      in (if offsetClause qb \<noteq> [] then q3 @ '' '' @ offsetClause qb else q3))"

definition QueryBuilder_select ::
  "env \<Rightarrow> string list \<Rightarrow> QueryBuilder \<Rightarrow> world \<Rightarrow> (error + obj list) \<times> world" where
  "QueryBuilder_select e columns qb w =
     and_then (Database_query e (select_query columns qb) (whereParams qb) (client qb) w) rows"

text \<open>
  \<^verbatim>\<open>insert(data)\<close>. Under the uuid strategy a primary key that is missing or falsy
  is replaced by a generated identifier before the statement is rendered. The result is
  the first returned row, if there is one.
\<close>

definition insert_data :: "string \<Rightarrow> obj \<Rightarrow> QueryBuilder \<Rightarrow> obj" where
  "insert_data generated data qb =
     (if primaryKeyType qb = uuid \<and> \<not> truthy (get_prop data (primaryKey qb))
      then set_prop (primaryKey qb) (JStr generated) data
      else data)"

definition insert_query :: "obj \<Rightarrow> QueryBuilder \<Rightarrow> string" where
  "insert_query insertData qb =
     ''\<newline>      INSERT INTO '' @ tableName qb @ '' ('' @ join '', '' (map fst insertData) @
     '')\<newline>      VALUES ('' @
     join '', '' (map (\<lambda>i. ''$'' @ show_nat (i + 1)) [0 ..< length (map snd insertData)]) @
     '')\<newline>      RETURNING *\<newline>    ''"

definition first_row :: "query_result \<Rightarrow> obj option" where
  "first_row r = (case rows r of [] \<Rightarrow> None | x # _ \<Rightarrow> Some x)"

definition QueryBuilder_insert ::
  "env \<Rightarrow> obj \<Rightarrow> QueryBuilder \<Rightarrow> world \<Rightarrow> (error + obj option) \<times> world" where
  "QueryBuilder_insert e data qb w =
     (let insertData = insert_data (randomUUID e (events w)) data qb
      in and_then (Database_query e (insert_query insertData qb) (map snd insertData)
                     (client qb) w) first_row)"

text \<open>
  \<^verbatim>\<open>condition.replace(/\$\d+/g, () => `$${whereParamIndex++}`)\<close>: every match, left to
  right, is replaced by the next index. The result carries the index after the last match.
\<close>

function replace_placeholders :: "string \<Rightarrow> nat \<Rightarrow> string \<times> nat" where
  "replace_placeholders [] k = ([], k)"
| "replace_placeholders (c # cs) k =
     (if c = CHR ''$'' \<and> takeWhile is_digit cs \<noteq> []
      then (case replace_placeholders (dropWhile is_digit cs) (k + 1) of
              (r, k') \<Rightarrow> (''$'' @ show_nat k @ r, k'))
      else (case replace_placeholders cs k of (r, k') \<Rightarrow> (c # r, k')))"
  by pat_completeness auto
termination
  by (relation "measure (\<lambda>(s, k). length s)") (auto simp: length_dropWhile_le less_Suc_eq_le)

text \<open>The loop of \<^verbatim>\<open>update\<close> over the accumulated conditions.\<close>

fun renumber :: "string list \<Rightarrow> nat \<Rightarrow> string list" where
  "renumber [] k = []"
| "renumber (cond # conds) k =
     (if CHR ''$'' \<in> set cond
      then (case replace_placeholders cond k of (cond', k') \<Rightarrow> cond' # renumber conds k')
      else cond # renumber conds k)"

definition setClause :: "string list \<Rightarrow> string" where
  "setClause columns =
     join '', '' (map (\<lambda>(col, i). col @ '' = $'' @ show_nat (i + 1))
                    (zip columns [0 ..< length columns]))"

definition update_query :: "obj \<Rightarrow> QueryBuilder \<Rightarrow> string" where
  "update_query data qb =
     (let conds = renumber (whereConditions qb) (length (map snd data) + 1);
          whereClause = (if length conds > 0 then ''WHERE '' @ join '' AND '' conds else []);
          q = ''UPDATE '' @ tableName qb @ '' SET '' @ setClause (map fst data)
      in (if whereClause \<noteq> [] then q @ '' '' @ whereClause else q))"

definition update_params :: "obj \<Rightarrow> QueryBuilder \<Rightarrow> jsval list" where
  "update_params data qb = map snd data @ whereParams qb"

definition QueryBuilder_update ::
  "env \<Rightarrow> obj \<Rightarrow> QueryBuilder \<Rightarrow> world \<Rightarrow> (error + obj list) \<times> world" where
  "QueryBuilder_update e data qb w =
     and_then (Database_query e (update_query data qb) (update_params data qb) (client qb) w)
       rows"

text \<open>\<^verbatim>\<open>delete()\<close>: refused when the WHERE clause is empty; \<^verbatim>\<open>rowCount || 0\<close> otherwise.\<close>

definition delete_needs_where :: error where
  "delete_needs_where = Error ''Delete operation requires a WHERE clause for safety''"

definition delete_query :: "QueryBuilder \<Rightarrow> string" where
  "delete_query qb = ''DELETE FROM '' @ tableName qb @ '' '' @ buildWhereClause qb"

definition affected :: "query_result \<Rightarrow> nat" where
  "affected r = (case rowCount r of None \<Rightarrow> 0 | Some n \<Rightarrow> (if n \<noteq> 0 then n else 0))"

definition QueryBuilder_delete ::
  "env \<Rightarrow> QueryBuilder \<Rightarrow> world \<Rightarrow> (error + nat) \<times> world" where
  "QueryBuilder_delete e qb w =
     (if buildWhereClause qb = [] then (Inl delete_needs_where, w)
      else and_then (Database_query e (delete_query qb) (whereParams qb) (client qb) w)
             affected)"

text \<open>The text \<^verbatim>\<open>count()\<close> renders (how its answer is parsed is not modelled).\<close>

definition count_query :: "QueryBuilder \<Rightarrow> string" where
  "count_query qb =
     ''SELECT COUNT(*) as count FROM '' @ tableName qb @ '' '' @ buildWhereClause qb"

text \<open>\<^verbatim>\<open>first()\<close>: limit 1, select, the first row or null.\<close>

definition QueryBuilder_first ::
  "env \<Rightarrow> QueryBuilder \<Rightarrow> world \<Rightarrow> (error + obj option) \<times> world" where
  "QueryBuilder_first e qb w =
     and_then (QueryBuilder_select e [''*''] (QueryBuilder_limit e (Whole 1) qb) w)
       (\<lambda>results. if length results > 0 then Some (hd results) else None)"

section \<open>The record mapper\<close>

text \<open>
  A record type: its name in lower case (the value of \<^verbatim>\<open>this.name.toLowerCase()\<close>,
  which the runtime computes), its static table descriptor (each part optional) and the
  own properties of a newly constructed instance.
\<close>

record ModelClass =
  lowerCaseName :: string
  static_tableName :: "string option"
  static_primaryKey :: "string option"
  static_primaryKeyType :: "PrimaryKeyType option"
  construct :: obj

definition getTableName :: "ModelClass \<Rightarrow> string" where
  "getTableName m =
     (case static_tableName m of
        Some t \<Rightarrow> if t \<noteq> [] then t else lowerCaseName m @ ''s''
      | None \<Rightarrow> lowerCaseName m @ ''s'')"

definition getPrimaryKey :: "ModelClass \<Rightarrow> string" where
  "getPrimaryKey m =
     (case static_primaryKey m of Some k \<Rightarrow> if k \<noteq> [] then k else ''id'' | None \<Rightarrow> ''id'')"

definition getPrimaryKeyType :: "ModelClass \<Rightarrow> PrimaryKeyType" where
  "getPrimaryKeyType m = (case static_primaryKeyType m of Some t \<Rightarrow> t | None \<Rightarrow> serial)"

definition Model_query :: "ModelClass \<Rightarrow> nat option \<Rightarrow> QueryBuilder" where
  "Model_query m cl = new_QueryBuilder (getTableName m) cl (getPrimaryKeyType m) (getPrimaryKey m)"

text \<open>A row as a record instance: \<^verbatim>\<open>Object.assign(new this(), row)\<close>.\<close>

definition materialize :: "ModelClass \<Rightarrow> obj \<Rightarrow> obj" where
  "materialize m row = Object_assign (construct m) row"

datatype order_option = Single OrderBy | Multiple "OrderBy list"

record SelectOptions =
  sel_where :: "obj option"
  sel_orderBy :: "order_option option"
  sel_limit :: "number option"
  sel_offset :: "number option"
  sel_client :: "nat option"

record UpdateOptions =
  upd_where :: "obj option"
  upd_client :: "nat option"

record DeleteOptions =
  del_where :: "obj option"
  del_client :: "nat option"

text \<open>The builder \<^verbatim>\<open>findAll\<close> prepares from its options, one truthiness test each.\<close>

definition findAll_builder :: "env \<Rightarrow> ModelClass \<Rightarrow> SelectOptions \<Rightarrow> QueryBuilder" where
  "findAll_builder e m options =
     (let b0 = Model_query m (sel_client options);
          b1 = (case sel_where options of
                  Some wh \<Rightarrow> QueryBuilder_where (CObject wh) JUndefined b0
                | None \<Rightarrow> b0);
          b2 = (case sel_orderBy options of
                  Some (Multiple orders) \<Rightarrow> QueryBuilder_orderByMultiple orders b1
                | Some (Single order) \<Rightarrow> QueryBuilder_orderBy (column order) (direction order) b1
                | None \<Rightarrow> b1);
          b3 = (case sel_limit options of
                  Some n \<Rightarrow> if truthy (JNum n) then QueryBuilder_limit e n b2 else b2
                | None \<Rightarrow> b2)
      in (case sel_offset options of
            Some n \<Rightarrow> if truthy (JNum n) then QueryBuilder_offset e n b3 else b3
          | None \<Rightarrow> b3))"

definition Model_findAll ::
  "env \<Rightarrow> ModelClass \<Rightarrow> SelectOptions \<Rightarrow> world \<Rightarrow> (error + obj list) \<times> world" where
  "Model_findAll e m options w =
     and_then (QueryBuilder_select e [''*''] (findAll_builder e m options) w) (map (materialize m))"

definition Model_create ::
  "env \<Rightarrow> ModelClass \<Rightarrow> obj \<Rightarrow> nat option \<Rightarrow> world \<Rightarrow> (error + obj) \<times> world" where
  "Model_create e m data cl w =
     and_then (QueryBuilder_insert e data (Model_query m cl) w)
       (Object_assign_opt (construct m))"

definition update_needs_where :: error where
  "update_needs_where = Error ''Update requires a WHERE clause''"

definition Model_update ::
  "env \<Rightarrow> ModelClass \<Rightarrow> obj \<Rightarrow> UpdateOptions \<Rightarrow> world \<Rightarrow> (error + obj list) \<times> world" where
  "Model_update e m data options w =
     (case upd_where options of
        Some wh \<Rightarrow>
          and_then (QueryBuilder_update e data
                      (QueryBuilder_where (CObject wh) JUndefined (Model_query m (upd_client options))) w)
            (map (materialize m))
      | None \<Rightarrow> (Inl update_needs_where, w))"

definition model_delete_needs_where :: error where
  "model_delete_needs_where = Error ''Delete requires a WHERE clause''"

definition Model_delete ::
  "env \<Rightarrow> ModelClass \<Rightarrow> DeleteOptions \<Rightarrow> world \<Rightarrow> (error + nat) \<times> world" where
  "Model_delete e m options w =
     (case del_where options of
        Some wh \<Rightarrow>
          QueryBuilder_delete e
            (QueryBuilder_where (CObject wh) JUndefined (Model_query m (del_client options))) w
      | None \<Rightarrow> (Inl model_delete_needs_where, w))"

text \<open>
  \<^verbatim>\<open>save()\<close> on an instance (its own properties): the data are the own properties
  other than the primary key and the functions; a truthy primary key selects the update.
\<close>

definition save_data :: "string \<Rightarrow> obj \<Rightarrow> obj" where
  "save_data pk this = filter (\<lambda>(key, v). key \<noteq> pk \<and> v \<noteq> JFunc) this"

definition Model_save ::
  "env \<Rightarrow> ModelClass \<Rightarrow> obj \<Rightarrow> nat option \<Rightarrow> world \<Rightarrow> (error + obj) \<times> world" where
  "Model_save e m this cl w =
     (let pk = getPrimaryKey m; data = save_data pk this
      in if truthy (get_prop this pk)
         then and_then
                (QueryBuilder_update e data
                   (QueryBuilder_where (CObject [(pk, get_prop this pk)]) JUndefined
                      (Model_query m cl)) w)
                (\<lambda>result. if length result > 0 then Object_assign this (hd result) else this)
         else and_then (QueryBuilder_insert e data (Model_query m cl) w)
                (Object_assign_opt this))"

section \<open>Transactions\<close>

record Transaction =
  trx_client :: nat
  committed :: bool
  rolledBack :: bool

definition new_Transaction :: "nat \<Rightarrow> Transaction" where
  "new_Transaction c = \<lparr>trx_client = c, committed = False, rolledBack = False\<rparr>"

definition already_committed :: error where
  "already_committed = Error ''Transaction already committed''"

definition already_rolled_back :: error where
  "already_rolled_back = Error ''Transaction already rolled back''"

text \<open>\<^verbatim>\<open>client.query(text)\<close> and \<^verbatim>\<open>client.release()\<close> on the pinned connection.\<close>

definition client_query :: "env \<Rightarrow> nat \<Rightarrow> string \<Rightarrow> world \<Rightarrow> (error + query_result) \<times> world" where
  "client_query e c text w =
     (pg_query e (events w) (Some c) text [], w\<lparr>events := events w @ [Query (Some c) text []]\<rparr>)"

definition client_release :: "nat \<Rightarrow> world \<Rightarrow> world" where
  "client_release c w = w\<lparr>events := events w @ [Release c]\<rparr>"

text \<open>Each method returns its outcome, the transaction as it leaves it, and the world.\<close>

definition Transaction_begin ::
  "env \<Rightarrow> Transaction \<Rightarrow> world \<Rightarrow> (error + unit) \<times> Transaction \<times> world" where
  "Transaction_begin e t w =
     (case client_query e (trx_client t) ''BEGIN'' w of
        (Inl err, w') \<Rightarrow> (Inl err, t, w')
      | (Inr r, w') \<Rightarrow> (Inr (), t, w'))"

definition Transaction_commit ::
  "env \<Rightarrow> Transaction \<Rightarrow> world \<Rightarrow> (error + unit) \<times> Transaction \<times> world" where
  "Transaction_commit e t w =
     (if committed t then (Inl already_committed, t, w)
      else if rolledBack t then (Inl already_rolled_back, t, w)
      else (case client_query e (trx_client t) ''COMMIT'' w of
              (Inl err, w') \<Rightarrow> (Inl err, t, w')
            | (Inr r, w') \<Rightarrow>
                (Inr (), t\<lparr>committed := True\<rparr>, client_release (trx_client t) w')))"

definition Transaction_rollback ::
  "env \<Rightarrow> Transaction \<Rightarrow> world \<Rightarrow> (error + unit) \<times> Transaction \<times> world" where
  "Transaction_rollback e t w =
     (if committed t then (Inl already_committed, t, w)
      else if rolledBack t then (Inr (), t, w)
      else (case client_query e (trx_client t) ''ROLLBACK'' w of
              (Inl err, w') \<Rightarrow> (Inl err, t, w')
            | (Inr r, w') \<Rightarrow>
                (Inr (), t\<lparr>rolledBack := True\<rparr>, client_release (trx_client t) w')))"

text \<open>
  The helper \<^verbatim>\<open>transaction(callback)\<close>. The unit of work gets the transaction and
  the world and may change both. The body of the \<^verbatim>\<open>try\<close> block runs begin, the unit
  and commit, and stops at the first failure; the \<^verbatim>\<open>catch\<close> block rolls back and
  raises the caught error again, unless the rollback itself fails.
\<close>

type_synonym 'a unit_of_work =
  "Transaction \<Rightarrow> world \<Rightarrow> (error + 'a) \<times> Transaction \<times> world"

definition try_block ::
  "env \<Rightarrow> 'a unit_of_work \<Rightarrow> Transaction \<Rightarrow> world \<Rightarrow> (error + 'a) \<times> Transaction \<times> world" where
  "try_block e callback t w =
     (case Transaction_begin e t w of
        (Inl err, t1, w1) \<Rightarrow> (Inl err, t1, w1)
      | (Inr u, t1, w1) \<Rightarrow>
          (case callback t1 w1 of
             (Inl err, t2, w2) \<Rightarrow> (Inl err, t2, w2)
           | (Inr result, t2, w2) \<Rightarrow>
               (case Transaction_commit e t2 w2 of
                  (Inl err, t3, w3) \<Rightarrow> (Inl err, t3, w3)
                | (Inr u', t3, w3) \<Rightarrow> (Inr result, t3, w3))))"

definition transaction :: "env \<Rightarrow> 'a unit_of_work \<Rightarrow> world \<Rightarrow> (error + 'a) \<times> world" where
  "transaction e callback w =
     (case Database_getClient e w of
        (Inl err, w0) \<Rightarrow> (Inl err, w0)
      | (Inr c, w0) \<Rightarrow>
          (case try_block e callback (new_Transaction c) w0 of
             (Inr result, t1, w1) \<Rightarrow> (Inr result, w1)
           | (Inl err, t1, w1) \<Rightarrow>
               (case Transaction_rollback e t1 w1 of
                  (Inl err', t2, w2) \<Rightarrow> (Inl err', w2)
                | (Inr u, t2, w2) \<Rightarrow> (Inl err, w2))))"

text \<open>How often a connection has been released.\<close>

definition releases :: "nat \<Rightarrow> world \<Rightarrow> nat" where
  "releases c w = length (filter (\<lambda>ev. ev = Release c) (events w))"

section \<open>Properties of texts and builders\<close>

text \<open>A text "stops digits" when it is empty or starts with a character that is no digit.\<close>

definition stops :: "string \<Rightarrow> bool" where
  "stops b = (b = [] \<or> \<not> is_digit (hd b))"

text \<open>
  A builder is numbered when the placeholders of its conditions are \<open>$1, $2, ...\<close> in
  order, one for each accumulated parameter, and the counter names the next one.
\<close>

definition numbered :: "QueryBuilder \<Rightarrow> bool" where
  "numbered qb =
     (concat (map placeholders (whereConditions qb)) = [1 ..< paramCounter qb] \<and>
      paramCounter qb = Suc (length (whereParams qb)))"

text \<open>
  The steps by which a filter is built. A \<open>where\<close> call with a string is one step, a raw
  fragment with its value; a \<open>where\<close> call with an object is one step for each field, in
  order. Each step adds one condition and supplies some values with it.
\<close>

datatype step = Raw string jsval | Entry string jsval



fun supplied :: "step \<Rightarrow> jsval list" where
  "supplied (Raw s v) = (if v \<noteq> JUndefined then [v] else [])"
| "supplied (Entry key val) =
     (if val = JNull \<or> val = JUndefined then []
      else (case val of JArr vs \<Rightarrow> vs | _ \<Rightarrow> [val]))"

text \<open>
  A step is well paired when its text holds as many placeholders as it supplies values:
  a raw fragment one for its value or none without a value, a field name none (the
  builder writes one for each value of a field itself).
\<close>

fun well_paired :: "step \<Rightarrow> bool" where
  "well_paired (Raw s v) = (length (placeholders s) = length (supplied (Raw s v)))"
| "well_paired (Entry key val) = (placeholders key = [])"

text \<open>A sequence of \<open>where\<close> calls, each a condition and a value (undefined when absent).\<close>

definition where_calls :: "(condition \<times> jsval) list \<Rightarrow> QueryBuilder \<Rightarrow> QueryBuilder" where
  "where_calls calls qb = foldl (\<lambda>b (c, v). QueryBuilder_where c v b) qb calls"

section \<open>Concrete inputs\<close>

text \<open>A server that accepts every statement, a connected pool, and a record type.\<close>

definition ok_env :: env where
  "ok_env = \<lparr>pg_query = (\<lambda>h c text ps. Inr \<lparr>rows = [], rowCount = Some 1\<rparr>),
             pg_connect = (\<lambda>h. Inr 7),
             randomUUID = (\<lambda>h. ''3f2b8c1e-5a4d-4e6f-9b7a-0c1d2e3f4a5b''),
     Number_toString = (\<lambda>n. ''Infinity'')\<rparr>"

definition w0 :: world where
  "w0 = \<lparr>connected = True, events = []\<rparr>"

definition User :: ModelClass where
  "User = \<lparr>lowerCaseName = ''user'', static_tableName = Some ''users'',
           static_primaryKey = Some ''id'', static_primaryKeyType = Some serial,
           construct = []\<rparr>"


definition by_id :: QueryBuilder where
  "by_id = QueryBuilder_where (CObject [(''id'', JNum (Whole 1))]) JUndefined
             (new_QueryBuilder ''users'' None serial ''id'')"

text \<open>A server on a broken connection, and three units of work.\<close>

definition broken_env :: env where
  "broken_env = \<lparr>pg_query = (\<lambda>h c text ps.
                   if text = ''COMMIT'' \<or> text = ''ROLLBACK''
                   then Inl (DriverError ''Connection terminated unexpectedly'')
                   else Inr \<lparr>rows = [], rowCount = None\<rparr>),
                 pg_connect = (\<lambda>h. Inr 7),
                 randomUUID = (\<lambda>h. ''3f2b8c1e-5a4d-4e6f-9b7a-0c1d2e3f4a5b''),
     Number_toString = (\<lambda>n. ''Infinity'')\<rparr>"

definition returns_42 :: "int unit_of_work" where
  "returns_42 t w = (Inr 42, t, w)"

definition commits_itself :: "int unit_of_work" where
  "commits_itself t w = (case Transaction_commit ok_env t w of (r, t', w') \<Rightarrow> (Inr 42, t', w'))"

definition fails_boom :: "int unit_of_work" where
  "fails_boom t w = (Inl (Error ''boom''), t, w)"

definition readme_mixed :: QueryBuilder where
  "readme_mixed =
     QueryBuilder_where (CString ''age > $1'') (JNum (Whole 18))
       (QueryBuilder_where (CObject [(''active'', JBool True)]) JUndefined
          (new_QueryBuilder ''users'' None serial ''id''))"


definition Product :: ModelClass where
  "Product = \<lparr>lowerCaseName = ''product'', static_tableName = Some ''products'',
              static_primaryKey = Some ''id'', static_primaryKeyType = Some uuid,
              construct = []\<rparr>"

text \<open>A server that answers every statement with one row.\<close>

definition bob_env :: env where
  "bob_env = \<lparr>pg_query = (\<lambda>h c text ps.
                 Inr \<lparr>rows = [[(''id'', JNum (Whole 5)), (''name'', JStr ''Bob'')]], rowCount = Some 1\<rparr>),
               pg_connect = (\<lambda>h. Inr 7),
               randomUUID = (\<lambda>h. ''3f2b8c1e-5a4d-4e6f-9b7a-0c1d2e3f4a5b''),
     Number_toString = (\<lambda>n. ''Infinity'')\<rparr>"

definition bobby :: obj where
  "bobby = [(''id'', JNum (Whole 5)), (''name'', JStr ''Bobby''), (''greet'', JFunc)]"

definition unsaved_bob :: obj where
  "unsaved_bob = [(''name'', JStr ''Bob'')]"

definition bob_zero :: obj where
  "bob_zero = [(''id'', JNum (Whole 0)), (''name'', JStr ''Bob'')]"

text \<open>
  A server that returns rows only to a statement with a RETURNING clause, a server that
  rejects an UPDATE with nothing to set, a record type whose new instances have a field of
  their own, and a world without a pool.
\<close>

fun contains :: "string \<Rightarrow> string \<Rightarrow> bool" where
  "contains sub [] = (sub = [])"
| "contains sub (c # cs) = (take (length sub) (c # cs) = sub \<or> contains sub cs)"

definition returning_env :: env where
  "returning_env = \<lparr>pg_query = (\<lambda>h c text ps.
                    Inr \<lparr>rows = (if contains ''RETURNING'' text
                                 then [[(''id'', JNum (Whole 1)), (''name'', JStr ''Jane'')]]
                                 else []),
                         rowCount = Some 1\<rparr>),
                  pg_connect = (\<lambda>h. Inr 7),
                  randomUUID = (\<lambda>h. ''3f2b8c1e-5a4d-4e6f-9b7a-0c1d2e3f4a5b''),
                  Number_toString = (\<lambda>n. ''Infinity'')\<rparr>"

definition strict_env :: env where
  "strict_env = \<lparr>pg_query = (\<lambda>h c text ps.
                   if text = ''UPDATE accounts SET ''
                   then Inl (DriverError ''syntax error at end of input'')
                   else Inr \<lparr>rows = [], rowCount = Some 1\<rparr>),
                 pg_connect = (\<lambda>h. Inr 7),
                 randomUUID = (\<lambda>h. ''3f2b8c1e-5a4d-4e6f-9b7a-0c1d2e3f4a5b''),
                 Number_toString = (\<lambda>n. ''Infinity'')\<rparr>"

definition Account :: ModelClass where
  "Account = \<lparr>lowerCaseName = ''account'', static_tableName = None,
              static_primaryKey = None, static_primaryKeyType = None,
              construct = [(''active'', JBool True)]\<rparr>"

definition no_pool :: world where
  "no_pool = \<lparr>connected = False, events = []\<rparr>"

definition mispaired :: QueryBuilder where
  "mispaired =
     where_calls [(CString ''z > 0'', JNum (Whole 8)), (CString ''x = $1'', JNum (Whole 7)),
                  (CString ''y = $1'', JUndefined)]
       (new_QueryBuilder ''users'' None serial ''id'')"

section \<open>Basic facts\<close>


lemma foldl_where_entry_clauses:
  "limitClause (foldl where_entry qb ob) = limitClause qb \<and>
   offsetClause (foldl where_entry qb ob) = offsetClause qb \<and>
   orderByClause (foldl where_entry qb ob) = orderByClause qb \<and>
   tableName (foldl where_entry qb ob) = tableName qb \<and>
   client (foldl where_entry qb ob) = client qb"
  by (induction ob arbitrary: qb) (auto simp: where_entry_def split: jsval.splits)

lemma and_then_simps [simp]:
  "and_then (Inl err, w) f = (Inl err, w)"
  "and_then (Inr x, w) f = (Inr (f x), w)"
  by (simp_all add: and_then_def)

lemma and_then_twice: "and_then (and_then r f) g = and_then r (\<lambda>x. g (f x))"
  by (cases r) (auto simp: and_then_def split: sum.splits)

lemma where_entry_conditions:
  "length (whereConditions (where_entry qb kv)) = Suc (length (whereConditions qb))"
  by (cases kv) (auto simp: where_entry_def split: jsval.splits)

lemma foldl_where_entry_conditions:
  "length (whereConditions (foldl where_entry qb ob)) = length (whereConditions qb) + length ob"
  by (induction ob arbitrary: qb) (simp_all add: where_entry_conditions)

lemma buildWhereClause_empty: "buildWhereClause qb = [] \<longleftrightarrow> whereConditions qb = []"
  by (simp add: buildWhereClause_def)

lemma get_prop_Cons:
  "get_prop ((k', v') # ob) k = (if k = k' then v' else get_prop ob k)"
  by (simp add: get_prop_def)

lemma get_prop_set_prop:
  "get_prop (set_prop k v ob) k' = (if k' = k then v else get_prop ob k')"
  by (induction ob) (auto simp: get_prop_def)

lemma get_prop_Object_assign:
  "distinct (map fst source) \<Longrightarrow>
   get_prop (Object_assign target source) k =
     (if k \<in> fst ` set source then get_prop source k else get_prop target k)"
proof (induction source arbitrary: target)
  case Nil
  then show ?case by (simp add: Object_assign_def)
next
  case (Cons kv source)
  obtain k' v' where kv: "kv = (k', v')" by (cases kv)
  from Cons.prems kv have d: "distinct (map fst source)" and n: "k' \<notin> fst ` set source"
    by auto
  have "Object_assign target (kv # source) = Object_assign (set_prop k' v' target) source"
    by (simp add: Object_assign_def kv)
  with Cons.IH [OF d, of "set_prop k' v' target"] n kv show ?case
    by (auto simp: get_prop_set_prop get_prop_Cons)
qed

section \<open>Transactions are one-shot\<close>

text \<open>
  Claim C7. After a successful \<open>commit()\<close>, a second \<open>commit()\<close> fails with the error
  "Transaction already committed", and so does \<open>rollback()\<close>. After a successful
  \<open>rollback()\<close>, another \<open>rollback()\<close> succeeds and leaves the transaction and the world
  as they are: no statement is issued and the connection is not released again.
\<close>

theorem transaction_one_shot:
  "(Transaction_commit e t w = (Inr (), t', w') \<longrightarrow>
      Transaction_commit e t' w' = (Inl already_committed, t', w') \<and>
      Transaction_rollback e t' w' = (Inl already_committed, t', w')) \<and>
   (Transaction_rollback e t w = (Inr (), t', w') \<longrightarrow>
      Transaction_rollback e t' w' = (Inr (), t', w'))"
  by (auto simp: Transaction_commit_def Transaction_rollback_def
           split: if_splits prod.splits sum.splits)

theorem transaction_one_shot_witness:
  "Transaction_commit ok_env (new_Transaction 7) w0 =
     (Inr (), \<lparr>trx_client = 7, committed = True, rolledBack = False\<rparr>,
      \<lparr>connected = True, events = [Query (Some 7) ''COMMIT'' [], Release 7]\<rparr>) \<and>
   Transaction_commit ok_env \<lparr>trx_client = 7, committed = True, rolledBack = False\<rparr>
      \<lparr>connected = True, events = [Query (Some 7) ''COMMIT'' [], Release 7]\<rparr> =
     (Inl already_committed, \<lparr>trx_client = 7, committed = True, rolledBack = False\<rparr>,
      \<lparr>connected = True, events = [Query (Some 7) ''COMMIT'' [], Release 7]\<rparr>) \<and>
   Transaction_rollback ok_env \<lparr>trx_client = 7, committed = True, rolledBack = False\<rparr>
      \<lparr>connected = True, events = [Query (Some 7) ''COMMIT'' [], Release 7]\<rparr> =
     (Inl already_committed, \<lparr>trx_client = 7, committed = True, rolledBack = False\<rparr>,
      \<lparr>connected = True, events = [Query (Some 7) ''COMMIT'' [], Release 7]\<rparr>) \<and>
   Transaction_rollback ok_env (new_Transaction 7) w0 =
     (Inr (), \<lparr>trx_client = 7, committed = False, rolledBack = True\<rparr>,
      \<lparr>connected = True, events = [Query (Some 7) ''ROLLBACK'' [], Release 7]\<rparr>) \<and>
   Transaction_rollback ok_env \<lparr>trx_client = 7, committed = False, rolledBack = True\<rparr>
      \<lparr>connected = True, events = [Query (Some 7) ''ROLLBACK'' [], Release 7]\<rparr> =
     (Inr (), \<lparr>trx_client = 7, committed = False, rolledBack = True\<rparr>,
      \<lparr>connected = True, events = [Query (Some 7) ''ROLLBACK'' [], Release 7]\<rparr>)"
proof -
  have c: "Transaction_commit ok_env (new_Transaction 7) w0 =
     (Inr (), \<lparr>trx_client = 7, committed = True, rolledBack = False\<rparr>,
      \<lparr>connected = True, events = [Query (Some 7) ''COMMIT'' [], Release 7]\<rparr>)"
    by (simp add: Transaction_commit_def new_Transaction_def w0_def ok_env_def
          client_query_def client_release_def)
  have r: "Transaction_rollback ok_env (new_Transaction 7) w0 =
     (Inr (), \<lparr>trx_client = 7, committed = False, rolledBack = True\<rparr>,
      \<lparr>connected = True, events = [Query (Some 7) ''ROLLBACK'' [], Release 7]\<rparr>)"
    by (simp add: Transaction_rollback_def new_Transaction_def w0_def ok_env_def
          client_query_def client_release_def)
  from c r
    transaction_one_shot [of ok_env "new_Transaction 7" w0
      "\<lparr>trx_client = 7, committed = True, rolledBack = False\<rparr>"
      "\<lparr>connected = True, events = [Query (Some 7) ''COMMIT'' [], Release 7]\<rparr>"]
    transaction_one_shot [of ok_env "new_Transaction 7" w0
      "\<lparr>trx_client = 7, committed = False, rolledBack = True\<rparr>"
      "\<lparr>connected = True, events = [Query (Some 7) ''ROLLBACK'' [], Release 7]\<rparr>"]
  show ?thesis by simp
qed

section \<open>findAll and a falsy limit or offset\<close>







section \<open>The WHERE gates of delete and update\<close>

text \<open>
  Claim C3, as amended. A builder has no WHERE condition after construction and after
  \<open>orderBy\<close>, \<open>orderByMultiple\<close>, \<open>limit\<close> and \<open>offset\<close>; with none, \<open>delete()\<close> fails
  with "Delete operation requires a WHERE clause for safety" and issues nothing. With at
  least one it runs \<open>DELETE FROM table WHERE ...\<close> with the accumulated parameters and
  returns the row count the server reports (or passes on the error of the statement).
  The mapper's \<open>delete(options)\<close> fails with "Delete requires a WHERE clause" when
  \<open>options.where\<close> is absent, fails at the builder's gate when it is an object with no
  field, and otherwise does what the builder's \<open>delete()\<close> does.
\<close>

theorem delete_requires_where:
  "whereConditions (new_QueryBuilder t cl pkt pk) = [] \<and>
   whereConditions (QueryBuilder_orderBy col d qb) = whereConditions qb \<and>
   whereConditions (QueryBuilder_orderByMultiple orders qb) = whereConditions qb \<and>
   whereConditions (QueryBuilder_limit e n qb) = whereConditions qb \<and>
   whereConditions (QueryBuilder_offset e n qb) = whereConditions qb \<and>
   (whereConditions qb = [] \<longrightarrow> QueryBuilder_delete e qb w = (Inl delete_needs_where, w)) \<and>
   (whereConditions qb \<noteq> [] \<longrightarrow>
      delete_query qb =
        ''DELETE FROM '' @ tableName qb @ '' WHERE '' @ join '' AND '' (whereConditions qb) \<and>
      (Database_query e (delete_query qb) (whereParams qb) (client qb) w = (Inr r, w') \<longrightarrow>
         QueryBuilder_delete e qb w = (Inr (affected r), w')) \<and>
      (Database_query e (delete_query qb) (whereParams qb) (client qb) w = (Inl err, w') \<longrightarrow>
         QueryBuilder_delete e qb w = (Inl err, w'))) \<and>
   Model_delete e m \<lparr>del_where = None, del_client = cl\<rparr> w = (Inl model_delete_needs_where, w) \<and>
   Model_delete e m \<lparr>del_where = Some [], del_client = cl\<rparr> w = (Inl delete_needs_where, w) \<and>
   (wh \<noteq> [] \<longrightarrow>
      Model_delete e m \<lparr>del_where = Some wh, del_client = cl\<rparr> w =
        (let b = QueryBuilder_where (CObject wh) JUndefined (Model_query m cl)
         in and_then (Database_query e (delete_query b) (whereParams b) cl w) affected))"
proof -
  have g: "whereConditions qb = [] \<Longrightarrow> QueryBuilder_delete e qb w = (Inl delete_needs_where, w)"
    by (simp add: QueryBuilder_delete_def buildWhereClause_def)
  have q: "whereConditions qb \<noteq> [] \<Longrightarrow> delete_query qb =
        ''DELETE FROM '' @ tableName qb @ '' WHERE '' @ join '' AND '' (whereConditions qb)"
    by (simp add: delete_query_def buildWhereClause_def)
  have ok: "whereConditions qb \<noteq> [] \<Longrightarrow>
      Database_query e (delete_query qb) (whereParams qb) (client qb) w = (Inr r, w') \<Longrightarrow>
         QueryBuilder_delete e qb w = (Inr (affected r), w')"
    by (simp add: QueryBuilder_delete_def buildWhereClause_empty)
  have ko: "whereConditions qb \<noteq> [] \<Longrightarrow>
      Database_query e (delete_query qb) (whereParams qb) (client qb) w = (Inl err, w') \<Longrightarrow>
         QueryBuilder_delete e qb w = (Inl err, w')"
    by (simp add: QueryBuilder_delete_def buildWhereClause_empty)
  have m0: "Model_delete e m \<lparr>del_where = Some [], del_client = cl\<rparr> w = (Inl delete_needs_where, w)"
    by (simp add: Model_delete_def QueryBuilder_where_def QueryBuilder_delete_def
          buildWhereClause_def Model_query_def new_QueryBuilder_def)
  have m1: "wh \<noteq> [] \<Longrightarrow>
      Model_delete e m \<lparr>del_where = Some wh, del_client = cl\<rparr> w =
        (let b = QueryBuilder_where (CObject wh) JUndefined (Model_query m cl)
         in and_then (Database_query e (delete_query b) (whereParams b) cl w) affected)"
    by (simp add: Model_delete_def QueryBuilder_where_def QueryBuilder_delete_def
          buildWhereClause_def foldl_where_entry_conditions foldl_where_entry_clauses
          Model_query_def new_QueryBuilder_def Let_def)
  show ?thesis
    using g q ok ko m0 m1
    by (simp add: new_QueryBuilder_def QueryBuilder_orderBy_def QueryBuilder_orderByMultiple_def
          QueryBuilder_limit_def QueryBuilder_offset_def Model_delete_def)
qed

theorem delete_requires_where_witness:
  "whereConditions (new_QueryBuilder ''users'' None serial ''id'') = [] \<and>
   QueryBuilder_delete ok_env (new_QueryBuilder ''users'' None serial ''id'') w0 =
     (Inl delete_needs_where, w0) \<and>
   whereConditions by_id \<noteq> [] \<and>
   Database_query ok_env (delete_query by_id) (whereParams by_id) (client by_id) w0 =
     (Inr \<lparr>rows = [], rowCount = Some 1\<rparr>,
      \<lparr>connected = True, events = [Query None ''DELETE FROM users WHERE id = $1'' [JNum (Whole 1)]]\<rparr>) \<and>
   QueryBuilder_delete ok_env by_id w0 =
     (Inr 1, \<lparr>connected = True,
              events = [Query None ''DELETE FROM users WHERE id = $1'' [JNum (Whole 1)]]\<rparr>) \<and>
   [(''id'', JNum (Whole 1))] \<noteq> ([] :: obj) \<and>
   Model_delete ok_env User \<lparr>del_where = Some [(''id'', JNum (Whole 1))], del_client = None\<rparr> w0 =
     (Inr 1, \<lparr>connected = True,
              events = [Query None ''DELETE FROM users WHERE id = $1'' [JNum (Whole 1)]]\<rparr>)"
proof -
  have a: "whereConditions (new_QueryBuilder ''users'' None serial ''id'') = []"
    by (simp add: new_QueryBuilder_def)
  have b: "whereConditions by_id \<noteq> []"
    by code_simp
  have c: "Database_query ok_env (delete_query by_id) (whereParams by_id) (client by_id) w0 =
     (Inr \<lparr>rows = [], rowCount = Some 1\<rparr>,
      \<lparr>connected = True, events = [Query None ''DELETE FROM users WHERE id = $1'' [JNum (Whole 1)]]\<rparr>)"
    by code_simp
  have d: "affected \<lparr>rows = [], rowCount = Some 1\<rparr> = 1"
    by (simp add: affected_def)
  have f: "(let b = QueryBuilder_where (CObject [(''id'', JNum (Whole 1))]) JUndefined (Model_query User None)
         in and_then (Database_query ok_env (delete_query b) (whereParams b) None w0) affected) =
     (Inr 1, \<lparr>connected = True,
              events = [Query None ''DELETE FROM users WHERE id = $1'' [JNum (Whole 1)]]\<rparr>)"
    by code_simp
  show ?thesis
    using a b c d f
      delete_requires_where [where qb = "new_QueryBuilder ''users'' None serial ''id''"
        and e = ok_env and w = w0]
      delete_requires_where [where qb = by_id and e = ok_env and w = w0
        and r = "\<lparr>rows = [], rowCount = Some 1\<rparr>"
        and w' = "\<lparr>connected = True,
                   events = [Query None ''DELETE FROM users WHERE id = $1'' [JNum (Whole 1)]]\<rparr>"
        and m = User and cl = None and wh = "[(''id'', JNum (Whole 1))]"]
    by simp
qed

text \<open>
  The claim as first stated lets the mapper's \<open>delete\<close> return a count whenever
  \<open>options.where\<close> is present. With the empty object it is present and the call fails.
\<close>

theorem Model_delete_empty_where_counterexample:
  "Model_delete ok_env User \<lparr>del_where = Some [], del_client = None\<rparr> w0 =
     (Inl delete_needs_where, w0) \<and>
   \<not> (\<exists>n w'. Model_delete ok_env User \<lparr>del_where = Some [], del_client = None\<rparr> w0 = (Inr n, w'))"
  by (simp add: Model_delete_def QueryBuilder_where_def QueryBuilder_delete_def
        buildWhereClause_def Model_query_def new_QueryBuilder_def)

text \<open>
  The mapper's \<open>update(data, options)\<close> fails with "Update requires a WHERE clause" when
  \<open>options.where\<close> is absent, leaving the world as it is (no statement is issued). When
  it is supplied, the condition is applied to the builder, the UPDATE is run, and the
  rows of the answer come back as record instances; an error of the statement is passed
  on. A record instance has the fields of a new instance, overwritten by the columns of
  the row.
\<close>

lemma Model_update_gate:
  "Model_update e m data \<lparr>upd_where = None, upd_client = cl\<rparr> w = (Inl update_needs_where, w) \<and>
   (let b = QueryBuilder_where (CObject wh) JUndefined (Model_query m cl) in
      (Database_query e (update_query data b) (update_params data b) cl w = (Inr r, w') \<longrightarrow>
         Model_update e m data \<lparr>upd_where = Some wh, upd_client = cl\<rparr> w =
           (Inr (map (materialize m) (rows r)), w')) \<and>
      (Database_query e (update_query data b) (update_params data b) cl w = (Inl err, w') \<longrightarrow>
         Model_update e m data \<lparr>upd_where = Some wh, upd_client = cl\<rparr> w = (Inl err, w'))) \<and>
   (distinct (map fst row) \<longrightarrow>
      get_prop (materialize m row) k =
        (if k \<in> fst ` set row then get_prop row k else get_prop (construct m) k))"
  by (simp add: Model_update_def QueryBuilder_update_def Let_def QueryBuilder_where_def
        foldl_where_entry_clauses Model_query_def new_QueryBuilder_def materialize_def
        get_prop_Object_assign)

lemma materialize_Account:
  "materialize Account [(''id'', JNum (Whole 1)), (''name'', JStr ''Jane'')] =
     [(''active'', JBool True), (''id'', JNum (Whole 1)), (''name'', JStr ''Jane'')]"
  by code_simp

text \<open>
  Claim C4, evaluated where it fails. Against a server that returns rows only to a
  statement with a RETURNING clause, the mapper's \<open>update\<close> with a WHERE condition sends
  \<open>UPDATE accounts SET name = $1 WHERE id = $2\<close>, which has none, and returns no record
  at all; the mapper's \<open>create\<close> sends its INSERT with \<open>RETURNING *\<close> and returns the
  record.
\<close>

theorem Model_update_returns_no_rows:
  "Model_update returning_env Account [(''name'', JStr ''Jane'')]
     \<lparr>upd_where = Some [(''id'', JNum (Whole 1))], upd_client = None\<rparr> w0 =
     (Inr [],
      \<lparr>connected = True,
       events = [Query None ''UPDATE accounts SET name = $1 WHERE id = $2''
                   [JStr ''Jane'', JNum (Whole 1)]]\<rparr>) \<and>
   \<not> contains ''RETURNING'' ''UPDATE accounts SET name = $1 WHERE id = $2'' \<and>
   Model_create returning_env Account [(''name'', JStr ''Jane'')] None w0 =
     (Inr [(''active'', JBool True), (''id'', JNum (Whole 1)), (''name'', JStr ''Jane'')],
      \<lparr>connected = True,
       events = [Query None
         ''\<newline>      INSERT INTO accounts (name)\<newline>      VALUES ($1)\<newline>      RETURNING *\<newline>    ''
         [JStr ''Jane'']]\<rparr>)"
  by code_simp

text \<open>
  Claim C5, as amended. With the empty object as \<open>options.where\<close> the mapper's update
  gate does not stop the call, for every data map. When there is a pinned client or a
  pool, the call sends \<open>UPDATE table SET ...\<close> with no WHERE clause and the SET values
  as its only parameters, and returns the rows of the server's answer as record
  instances, or the server's error. With neither it fails with "Database not connected"
  and sends nothing. The same empty object passed to the mapper's \<open>delete\<close> fails at the
  builder's gate and sends nothing.
\<close>

theorem empty_where_defeats_update_gate:
  "(cl \<noteq> None \<or> connected w \<longrightarrow>
      snd (Model_update e m data \<lparr>upd_where = Some [], upd_client = cl\<rparr> w) =
        w\<lparr>events := events w @
             [Query cl (''UPDATE '' @ getTableName m @ '' SET '' @ setClause (map fst data))
                (map snd data)]\<rparr> \<and>
      fst (Model_update e m data \<lparr>upd_where = Some [], upd_client = cl\<rparr> w) =
        (case pg_query e (events w) cl
                (''UPDATE '' @ getTableName m @ '' SET '' @ setClause (map fst data))
                (map snd data) of
           Inl err \<Rightarrow> Inl err
         | Inr r \<Rightarrow> Inr (map (materialize m) (rows r)))) \<and>
   (cl = None \<and> \<not> connected w \<longrightarrow>
      Model_update e m data \<lparr>upd_where = Some [], upd_client = cl\<rparr> w = (Inl not_connected, w)) \<and>
   Model_delete e m \<lparr>del_where = Some [], del_client = cl\<rparr> w = (Inl delete_needs_where, w)"
proof -
  let ?text = "''UPDATE '' @ getTableName m @ '' SET '' @ setClause (map fst data)"
  have u: "Model_update e m data \<lparr>upd_where = Some [], upd_client = cl\<rparr> w =
      and_then (Database_query e ?text (map snd data) cl w) (\<lambda>r. map (materialize m) (rows r))"
    by (simp add: Model_update_def QueryBuilder_update_def QueryBuilder_where_def
          update_query_def update_params_def Model_query_def new_QueryBuilder_def and_then_twice)
  have s: "cl \<noteq> None \<or> connected w \<Longrightarrow>
      Database_query e ?text (map snd data) cl w =
        (pg_query e (events w) cl ?text (map snd data),
         w\<lparr>events := events w @ [Query cl ?text (map snd data)]\<rparr>)"
    by (auto simp: Database_query_def)
  have n: "cl = None \<and> \<not> connected w \<Longrightarrow>
      Database_query e ?text (map snd data) cl w = (Inl not_connected, w)"
    by (simp add: Database_query_def)
  have d: "Model_delete e m \<lparr>del_where = Some [], del_client = cl\<rparr> w =
      (Inl delete_needs_where, w)"
    by (simp add: Model_delete_def QueryBuilder_where_def QueryBuilder_delete_def
          buildWhereClause_def Model_query_def new_QueryBuilder_def)
  show ?thesis
    using s n d unfolding u by (auto simp: and_then_def split: sum.splits)
qed

theorem empty_where_defeats_update_gate_witness:
  "connected w0 \<and>
   Model_update returning_env Account [(''active'', JBool False)]
     \<lparr>upd_where = Some [], upd_client = None\<rparr> w0 =
     (Inr [],
      \<lparr>connected = True,
       events = [Query None ''UPDATE accounts SET active = $1'' [JBool False]]\<rparr>) \<and>
   Some 7 \<noteq> None \<and>
   Model_update ok_env Account [(''active'', JBool False)]
     \<lparr>upd_where = Some [], upd_client = Some 7\<rparr> no_pool =
     (Inr [],
      \<lparr>connected = False,
       events = [Query (Some 7) ''UPDATE accounts SET active = $1'' [JBool False]]\<rparr>) \<and>
   \<not> connected no_pool \<and>
   Model_update ok_env Account [(''active'', JBool False)]
     \<lparr>upd_where = Some [], upd_client = None\<rparr> no_pool = (Inl not_connected, no_pool) \<and>
   Model_delete ok_env Account \<lparr>del_where = Some [], del_client = None\<rparr> w0 =
     (Inl delete_needs_where, w0)"
proof -
  have a: "connected w0" "\<not> connected no_pool"
    by (simp_all add: w0_def no_pool_def)
  have t: "getTableName Account = ''accounts''" "setClause [''active''] = ''active = $1''"
    by code_simp+
  have q: "pg_query returning_env (events w0) None ''UPDATE accounts SET active = $1''
             [JBool False] = Inr \<lparr>rows = [], rowCount = Some 1\<rparr>"
    "pg_query ok_env (events no_pool) (Some 7) ''UPDATE accounts SET active = $1''
             [JBool False] = Inr \<lparr>rows = [], rowCount = Some 1\<rparr>"
    by code_simp+
  have w: "w0\<lparr>events := events w0 @ [Query None ''UPDATE accounts SET active = $1'' [JBool False]]\<rparr> =
      \<lparr>connected = True,
       events = [Query None ''UPDATE accounts SET active = $1'' [JBool False]]\<rparr>"
    "no_pool\<lparr>events := events no_pool @
        [Query (Some 7) ''UPDATE accounts SET active = $1'' [JBool False]]\<rparr> =
      \<lparr>connected = False,
       events = [Query (Some 7) ''UPDATE accounts SET active = $1'' [JBool False]]\<rparr>"
    by (simp_all add: w0_def no_pool_def)
  from empty_where_defeats_update_gate [where e = returning_env and m = Account
      and data = "[(''active'', JBool False)]" and cl = None and w = w0] a
  have u1: "Model_update returning_env Account [(''active'', JBool False)]
     \<lparr>upd_where = Some [], upd_client = None\<rparr> w0 =
     (Inr [],
      \<lparr>connected = True,
       events = [Query None ''UPDATE accounts SET active = $1'' [JBool False]]\<rparr>)"
    by (simp add: t q w prod_eq_iff)
  from empty_where_defeats_update_gate [where e = ok_env and m = Account
      and data = "[(''active'', JBool False)]" and cl = "Some 7" and w = no_pool]
  have u2: "Model_update ok_env Account [(''active'', JBool False)]
     \<lparr>upd_where = Some [], upd_client = Some 7\<rparr> no_pool =
     (Inr [],
      \<lparr>connected = False,
       events = [Query (Some 7) ''UPDATE accounts SET active = $1'' [JBool False]]\<rparr>)"
    by (simp add: t q w prod_eq_iff)
  from empty_where_defeats_update_gate [where e = ok_env and m = Account
      and data = "[(''active'', JBool False)]" and cl = None and w = no_pool] a
  have u3: "Model_update ok_env Account [(''active'', JBool False)]
     \<lparr>upd_where = Some [], upd_client = None\<rparr> no_pool = (Inl not_connected, no_pool)"
    and d: "Model_delete ok_env Account \<lparr>del_where = Some [], del_client = None\<rparr> no_pool =
     (Inl delete_needs_where, no_pool)"
    by simp_all
  from empty_where_defeats_update_gate [where e = ok_env and m = Account
      and data = "[]" and cl = None and w = w0]
  have d0: "Model_delete ok_env Account \<lparr>del_where = Some [], del_client = None\<rparr> w0 =
     (Inl delete_needs_where, w0)"
    by simp
  show ?thesis
    using a u1 u2 u3 d0 by simp
qed

text \<open>
  The claim as first stated has the call not throw for every data map. It throws when
  there is neither a pool nor a pinned client, and it throws when the server rejects the
  statement, as a server does for the empty data map.
\<close>

theorem empty_where_defeats_update_gate_counterexample:
  "Model_update ok_env Account [(''active'', JBool False)]
     \<lparr>upd_where = Some [], upd_client = None\<rparr> no_pool = (Inl not_connected, no_pool) \<and>
   Model_update strict_env Account [] \<lparr>upd_where = Some [], upd_client = None\<rparr> w0 =
     (Inl (DriverError ''syntax error at end of input''),
      \<lparr>connected = True, events = [Query None ''UPDATE accounts SET '' []]\<rparr>)"
  by code_simp

section \<open>The transactional helper\<close>

lemma releases_append:
  "releases c (w\<lparr>events := events w @ evs\<rparr>) =
     releases c w + length (filter (\<lambda>ev. ev = Release c) evs)"
  by (simp add: releases_def)

lemma rollback_fresh:
  assumes "\<not> committed t" "\<not> rolledBack t"
    and "pg_query e (events w) (Some (trx_client t)) ''ROLLBACK'' [] = Inr r"
  shows "Transaction_rollback e t w =
    (Inr (), t\<lparr>rolledBack := True\<rparr>,
     w\<lparr>events := events w @ [Query (Some (trx_client t)) ''ROLLBACK'' [], Release (trx_client t)]\<rparr>)"
  using assms by (simp add: Transaction_rollback_def client_query_def client_release_def)

lemma commit_fresh:
  assumes "\<not> committed t" "\<not> rolledBack t"
  shows "Transaction_commit e t w =
    (case pg_query e (events w) (Some (trx_client t)) ''COMMIT'' [] of
       Inl err \<Rightarrow> (Inl err, t, w\<lparr>events := events w @ [Query (Some (trx_client t)) ''COMMIT'' []]\<rparr>)
     | Inr r \<Rightarrow> (Inr (), t\<lparr>committed := True\<rparr>,
         w\<lparr>events := events w @ [Query (Some (trx_client t)) ''COMMIT'' [], Release (trx_client t)]\<rparr>))"
  using assms
  by (simp add: Transaction_commit_def client_query_def client_release_def split: sum.splits)

lemma begin_result:
  "Transaction_begin e t w =
    (case pg_query e (events w) (Some (trx_client t)) ''BEGIN'' [] of
       Inl err \<Rightarrow> (Inl err, t, w\<lparr>events := events w @ [Query (Some (trx_client t)) ''BEGIN'' []]\<rparr>)
     | Inr r \<Rightarrow> (Inr (), t, w\<lparr>events := events w @ [Query (Some (trx_client t)) ''BEGIN'' []]\<rparr>))"
  by (simp add: Transaction_begin_def client_query_def split: sum.splits)

lemma transaction_releases:
  assumes acquired: "Database_getClient e w = (Inr c, wa)"
    and unit_ok: "\<And>t w1. fst (snd (callback t w1)) = t \<and>
                      releases c (snd (snd (callback t w1))) = releases c w1"
    and rollback_ok: "\<And>h. \<exists>r. pg_query e h (Some c) ''ROLLBACK'' [] = Inr r"
  shows "releases c (snd (transaction e callback w)) = releases c wa + 1"
proof -
  let ?t = "new_Transaction c"
  let ?w1 = "wa\<lparr>events := events wa @ [Query (Some c) ''BEGIN'' []]\<rparr>"
  have fresh: "\<not> committed ?t" "\<not> rolledBack ?t" "trx_client ?t = c"
    by (simp_all add: new_Transaction_def)
  have rb: "\<And>w' :: world. Transaction_rollback e ?t w' =
    (Inr (), ?t\<lparr>rolledBack := True\<rparr>,
     w'\<lparr>events := events w' @ [Query (Some c) ''ROLLBACK'' [], Release c]\<rparr>)"
  proof -
    fix w' :: world
    from rollback_ok [of "events w'"] obtain r
      where "pg_query e (events w') (Some c) ''ROLLBACK'' [] = Inr r" by blast
    with rollback_fresh [of ?t e w' r] fresh show "Transaction_rollback e ?t w' =
    (Inr (), ?t\<lparr>rolledBack := True\<rparr>,
     w'\<lparr>events := events w' @ [Query (Some c) ''ROLLBACK'' [], Release c]\<rparr>)" by simp
  qed
  have r1: "releases c ?w1 = releases c wa"
    by (simp add: releases_def)
  obtain res t2 w2 where cb: "callback ?t ?w1 = (res, t2, w2)"
    by (cases "callback ?t ?w1") auto
  from unit_ok [of ?t ?w1] cb have t2: "t2 = ?t" and r2: "releases c w2 = releases c wa"
    using r1 by simp_all
  show ?thesis
  proof (cases "pg_query e (events wa) (Some c) ''BEGIN'' []")
    case (Inl eb)
    then show ?thesis
      using fresh r1
      by (simp add: transaction_def acquired try_block_def begin_result rb releases_append)
  next
    case (Inr rbeg)
    show ?thesis
    proof (cases res)
      case (Inl err)
      with Inr cb t2 r2 fresh show ?thesis
        by (simp add: transaction_def acquired try_block_def begin_result rb releases_append)
    next
      case (Inr result)
      note res = this
      show ?thesis
      proof (cases "pg_query e (events w2) (Some c) ''COMMIT'' []")
        case (Inl ec)
        with res \<open>pg_query e (events wa) (Some c) ''BEGIN'' [] = Inr rbeg\<close> cb t2 r2 fresh
        show ?thesis
          by (simp add: transaction_def acquired try_block_def begin_result commit_fresh rb
                releases_append releases_def)
      next
        case (Inr rc)
        with res \<open>pg_query e (events wa) (Some c) ''BEGIN'' [] = Inr rbeg\<close> cb t2 r2 fresh
        show ?thesis
          by (simp add: transaction_def acquired try_block_def begin_result commit_fresh
                releases_append releases_def)
      qed
    qed
  qed
qed

text \<open>
  Claim C6, as amended. Let the helper have acquired its connection, let the unit of work
  leave the transaction's state alone and release nothing, and let ROLLBACK succeed
  whenever it is issued on the connection. Then the connection is released exactly once
  by the time the helper returns, whatever the outcome. If BEGIN and COMMIT succeed
  as well, the helper begins, runs the unit, and either commits, releases and returns the
  unit's result, or rolls back, releases and raises the unit's error again.
\<close>

theorem transaction_helper:
  assumes acquired: "Database_getClient e w = (Inr c, wa)"
    and unit_ok: "\<And>t w1. fst (snd (callback t w1)) = t \<and>
                      releases c (snd (snd (callback t w1))) = releases c w1"
    and rollback_ok: "\<And>h. \<exists>r. pg_query e h (Some c) ''ROLLBACK'' [] = Inr r"
  shows "releases c (snd (transaction e callback w)) = releases c wa + 1 \<and>
    ((\<forall>h. \<exists>r. pg_query e h (Some c) ''BEGIN'' [] = Inr r) \<and>
     (\<forall>h. \<exists>r. pg_query e h (Some c) ''COMMIT'' [] = Inr r) \<longrightarrow>
       (case callback (new_Transaction c) (wa\<lparr>events := events wa @ [Query (Some c) ''BEGIN'' []]\<rparr>) of
          (Inr result, t2, w2) \<Rightarrow>
            transaction e callback w =
              (Inr result, w2\<lparr>events := events w2 @ [Query (Some c) ''COMMIT'' [], Release c]\<rparr>)
        | (Inl err, t2, w2) \<Rightarrow>
            transaction e callback w =
              (Inl err, w2\<lparr>events := events w2 @ [Query (Some c) ''ROLLBACK'' [], Release c]\<rparr>)))"
proof (intro conjI impI)
  show "releases c (snd (transaction e callback w)) = releases c wa + 1"
    using transaction_releases [OF acquired unit_ok rollback_ok] .
next
  assume ok: "(\<forall>h. \<exists>r. pg_query e h (Some c) ''BEGIN'' [] = Inr r) \<and>
     (\<forall>h. \<exists>r. pg_query e h (Some c) ''COMMIT'' [] = Inr r)"
  let ?t = "new_Transaction c"
  let ?w1 = "wa\<lparr>events := events wa @ [Query (Some c) ''BEGIN'' []]\<rparr>"
  have fresh: "\<not> committed ?t" "\<not> rolledBack ?t" "trx_client ?t = c"
    by (simp_all add: new_Transaction_def)
  obtain res t2 w2 where cb: "callback ?t ?w1 = (res, t2, w2)"
    by (cases "callback ?t ?w1") auto
  from unit_ok [of ?t ?w1] cb have t2: "t2 = ?t" by simp
  from ok obtain rb where b: "pg_query e (events wa) (Some c) ''BEGIN'' [] = Inr rb" by blast
  from ok obtain rc where c: "pg_query e (events w2) (Some c) ''COMMIT'' [] = Inr rc" by blast
  from rollback_ok obtain rr where r: "pg_query e (events w2) (Some c) ''ROLLBACK'' [] = Inr rr"
    by blast
  show "case callback ?t ?w1 of
          (Inr result, t2, w2) \<Rightarrow>
            transaction e callback w =
              (Inr result, w2\<lparr>events := events w2 @ [Query (Some c) ''COMMIT'' [], Release c]\<rparr>)
        | (Inl err, t2, w2) \<Rightarrow>
            transaction e callback w =
              (Inl err, w2\<lparr>events := events w2 @ [Query (Some c) ''ROLLBACK'' [], Release c]\<rparr>)"
  proof (cases res)
    case (Inl err)
    with cb t2 b r fresh show ?thesis
      by (simp add: transaction_def acquired try_block_def begin_result rollback_fresh)
  next
    case (Inr result)
    with cb t2 b c fresh show ?thesis
      by (simp add: transaction_def acquired try_block_def begin_result commit_fresh)
  qed
qed

theorem transaction_helper_witness:
  "Database_getClient ok_env w0 = (Inr 7, \<lparr>connected = True, events = [Connect 7]\<rparr>) \<and>
   (\<forall>t w1. fst (snd (returns_42 t w1)) = t \<and>
            releases 7 (snd (snd (returns_42 t w1))) = releases 7 w1) \<and>
   (\<forall>t w1. fst (snd (fails_boom t w1)) = t \<and>
            releases 7 (snd (snd (fails_boom t w1))) = releases 7 w1) \<and>
   (\<forall>h. \<exists>r. pg_query ok_env h (Some 7) ''ROLLBACK'' [] = Inr r) \<and>
   (\<forall>h. \<exists>r. pg_query ok_env h (Some 7) ''BEGIN'' [] = Inr r) \<and>
   (\<forall>h. \<exists>r. pg_query ok_env h (Some 7) ''COMMIT'' [] = Inr r) \<and>
   transaction ok_env returns_42 w0 =
     (Inr 42, \<lparr>connected = True,
               events = [Connect 7, Query (Some 7) ''BEGIN'' [], Query (Some 7) ''COMMIT'' [],
                         Release 7]\<rparr>) \<and>
   releases 7 (snd (transaction ok_env returns_42 w0)) = 1 \<and>
   transaction ok_env fails_boom w0 =
     (Inl (Error ''boom''),
      \<lparr>connected = True,
       events = [Connect 7, Query (Some 7) ''BEGIN'' [], Query (Some 7) ''ROLLBACK'' [],
                 Release 7]\<rparr>) \<and>
   releases 7 (snd (transaction ok_env fails_boom w0)) = 1"
proof -
  have a: "Database_getClient ok_env w0 = (Inr 7, \<lparr>connected = True, events = [Connect 7]\<rparr>)"
    by (simp add: Database_getClient_def ok_env_def w0_def)
  have u1: "\<And>t w1. fst (snd (returns_42 t w1)) = t \<and>
            releases 7 (snd (snd (returns_42 t w1))) = releases 7 w1"
    by (simp add: returns_42_def)
  have u2: "\<And>t w1. fst (snd (fails_boom t w1)) = t \<and>
            releases 7 (snd (snd (fails_boom t w1))) = releases 7 w1"
    by (simp add: fails_boom_def)
  have q: "\<And>text h. \<exists>r. pg_query ok_env h (Some 7) text [] = Inr r"
    by (simp add: ok_env_def)
  have r0: "releases 7 \<lparr>connected = True, events = [Connect 7]\<rparr> = 0"
    by (simp add: releases_def)
  show ?thesis
    using a u1 u2 q r0
      transaction_helper [of ok_env w0 7 "\<lparr>connected = True, events = [Connect 7]\<rparr>" returns_42,
        OF a u1 q]
      transaction_helper [of ok_env w0 7 "\<lparr>connected = True, events = [Connect 7]\<rparr>" fails_boom,
        OF a u2 q]
    by (simp add: returns_42_def fails_boom_def new_Transaction_def releases_def)
qed

text \<open>
  The claim as first stated speaks of every unit of work. A unit that commits the
  transaction itself and then completes normally does not get its result returned: the
  helper's own commit fails with "Transaction already committed".
\<close>

theorem transaction_helper_counterexample:
  "commits_itself (new_Transaction 7)
     \<lparr>connected = True, events = [Connect 7, Query (Some 7) ''BEGIN'' []]\<rparr> =
     (Inr 42, \<lparr>trx_client = 7, committed = True, rolledBack = False\<rparr>,
      \<lparr>connected = True,
       events = [Connect 7, Query (Some 7) ''BEGIN'' [], Query (Some 7) ''COMMIT'' [],
                 Release 7]\<rparr>) \<and>
   transaction ok_env commits_itself w0 =
     (Inl already_committed,
      \<lparr>connected = True,
       events = [Connect 7, Query (Some 7) ''BEGIN'' [], Query (Some 7) ''COMMIT'' [],
                 Release 7]\<rparr>)"
  by code_simp

text \<open>
  What the amended claim leaves open: when COMMIT and ROLLBACK both fail, the helper
  raises the error of the rollback and the connection is not released.
\<close>

lemma transaction_rollback_failure:
  "transaction broken_env returns_42 w0 =
     (Inl (DriverError ''Connection terminated unexpectedly''),
      \<lparr>connected = True,
       events = [Connect 7, Query (Some 7) ''BEGIN'' [], Query (Some 7) ''COMMIT'' [],
                 Query (Some 7) ''ROLLBACK'' []]\<rparr>) \<and>
   releases 7 (snd (transaction broken_env returns_42 w0)) = 0"
proof -
  have "transaction broken_env returns_42 w0 =
     (Inl (DriverError ''Connection terminated unexpectedly''),
      \<lparr>connected = True,
       events = [Connect 7, Query (Some 7) ''BEGIN'' [], Query (Some 7) ''COMMIT'' [],
                 Query (Some 7) ''ROLLBACK'' []]\<rparr>)"
    by code_simp
  then show ?thesis by (simp add: releases_def)
qed

section \<open>Placeholder numbering\<close>

lemma lt10: "d < 10 \<Longrightarrow> d \<in> {0, 1, 2, 3, 4, 5, 6, 7, 8, 9 :: nat}"
  by auto

lemma is_digit_digit_char: "d < 10 \<Longrightarrow> is_digit (digit_char d)"
  using lt10 [of d] by (auto simp: is_digit_def digit_char_def)

lemma digit_val_digit_char: "d < 10 \<Longrightarrow> digit_val (digit_char d) = d"
  using lt10 [of d] by (auto simp: digit_val_def digit_char_def)

lemma show_nat_digits: "\<forall>c \<in> set (show_nat n). is_digit c"
  by (induction n rule: show_nat.induct) (subst show_nat.simps, auto simp: is_digit_digit_char)

lemma show_nat_nonempty: "show_nat n \<noteq> []"
  by (subst show_nat.simps) simp

lemma parse_nat_snoc: "parse_nat (s @ [c]) = 10 * parse_nat s + digit_val c"
  by (simp add: parse_nat_def)

lemma parse_show_nat: "parse_nat (show_nat n) = n"
proof (induction n rule: show_nat.induct)
  case (1 n)
  show ?case
  proof (cases "n < 10")
    case True
    then show ?thesis
      by (subst show_nat.simps) (simp add: parse_nat_def digit_val_digit_char)
  next
    case False
    with 1 show ?thesis
      by (subst show_nat.simps) (simp add: parse_nat_snoc digit_val_digit_char)
  qed
qed

lemma not_digit_dollar: "\<not> is_digit CHR ''$''" "\<not> is_digit CHR '' ''" "\<not> is_digit CHR '',''"
  "\<not> is_digit CHR '')''"
  by (simp_all add: is_digit_def)

lemma takeWhile_digits_stop:
  "stops b \<Longrightarrow> takeWhile is_digit (cs @ b) = takeWhile is_digit cs"
proof (cases "\<forall>x \<in> set cs. is_digit x")
  case True
  assume "stops b"
  then have nb: "takeWhile is_digit b = []"
    by (simp add: stops_def takeWhile_eq_Nil_iff)
  from True have tc: "takeWhile is_digit cs = cs" by simp
  have "takeWhile is_digit (cs @ b) = cs @ takeWhile is_digit b"
    using True by (simp add: takeWhile_append)
  also have "\<dots> = cs" by (simp only: nb append_Nil2)
  also have "\<dots> = takeWhile is_digit cs" by (simp only: tc)
  finally show ?thesis .
next
  case False
  then show ?thesis by (auto simp: takeWhile_append)
qed

lemma dropWhile_digits_stop:
  "stops b \<Longrightarrow> dropWhile is_digit (cs @ b) = dropWhile is_digit cs @ b"
  by (cases b) (auto simp: stops_def dropWhile_append)

lemma placeholders_append:
  "stops b \<Longrightarrow> placeholders (a @ b) = placeholders a @ placeholders b"
proof (induction a rule: placeholders.induct)
  case 1
  then show ?case by simp
next
  case (2 c cs)
  then show ?case
    by (simp add: takeWhile_digits_stop dropWhile_digits_stop)
qed

lemma placeholders_no_dollar:
  "CHR ''$'' \<notin> set a \<Longrightarrow> placeholders (a @ b) = placeholders b"
  by (induction a) auto

lemma placeholders_no_dollar_Nil: "CHR ''$'' \<notin> set a \<Longrightarrow> placeholders a = []"
  using placeholders_no_dollar [of a "[]"] by simp

lemma placeholders_dollar_number:
  "stops b \<Longrightarrow> placeholders (''$'' @ show_nat n @ b) = n # placeholders b"
proof -
  assume s: "stops b"
  have all: "\<forall>c \<in> set (show_nat n). is_digit c" by (rule show_nat_digits)
  have t: "takeWhile is_digit (show_nat n @ b) = show_nat n"
    using s all by (cases b) (auto simp: stops_def takeWhile_append)
  have d: "dropWhile is_digit (show_nat n @ b) = b"
    using s all by (cases b) (auto simp: stops_def dropWhile_append)
  show ?thesis
    by (simp add: t d show_nat_nonempty parse_show_nat)
qed

lemma stops_replace:
  "stops s \<Longrightarrow> stops (fst (replace_placeholders s k))"
  by (cases s) (auto simp: stops_def not_digit_dollar split: prod.splits)

lemma stops_dropWhile: "stops (dropWhile is_digit cs)"
  using hd_dropWhile [of is_digit cs] by (auto simp: stops_def)

lemma replace_placeholders_numbers:
  "placeholders (fst (replace_placeholders s k)) = [k ..< k + length (placeholders s)] \<and>
   snd (replace_placeholders s k) = k + length (placeholders s)"
proof (induction s k rule: replace_placeholders.induct)
  case (1 k)
  then show ?case by simp
next
  case (2 c cs k)
  show ?case
  proof (cases "c = CHR ''$'' \<and> takeWhile is_digit cs \<noteq> []")
    case True
    obtain r k' where r: "replace_placeholders (dropWhile is_digit cs) (k + 1) = (r, k')"
      by (cases "replace_placeholders (dropWhile is_digit cs) (k + 1)") auto
    from stops_replace [OF stops_dropWhile, of cs "k + 1"] r have sr: "stops r" by simp
    from 2(1) [OF True] r
    have ih: "placeholders r = [k + 1 ..< k + 1 + length (placeholders (dropWhile is_digit cs))]"
      "k' = k + 1 + length (placeholders (dropWhile is_digit cs))" by simp_all
    have out: "fst (replace_placeholders (c # cs) k) = ''$'' @ show_nat k @ r"
      "snd (replace_placeholders (c # cs) k) = k'"
      using True r by simp_all
    have "placeholders (''$'' @ show_nat k @ r) = k # placeholders r"
      by (rule placeholders_dollar_number [OF sr])
    with out ih True show ?thesis
      by (simp add: upt_rec)
  next
    case False
    obtain r k' where r: "replace_placeholders cs k = (r, k')"
      by (cases "replace_placeholders cs k") auto
    from 2(2) [OF False] r
    have ih: "placeholders r = [k ..< k + length (placeholders cs)]"
      "k' = k + length (placeholders cs)" by simp_all
    have out: "fst (replace_placeholders (c # cs) k) = c # r"
      "snd (replace_placeholders (c # cs) k) = k'"
      using False r by auto
    have same: "placeholders (c # r) = placeholders r"
    proof (cases "c = CHR ''$''")
      case True
      with False have "takeWhile is_digit cs = []" by simp
      then have "stops cs" by (simp add: stops_def takeWhile_eq_Nil_iff)
      from stops_replace [OF this, of k] r have "stops r" by simp
      then have "takeWhile is_digit r = []" by (simp add: stops_def takeWhile_eq_Nil_iff)
      then show ?thesis by simp
    next
      case False
      then show ?thesis by simp
    qed
    from False have "placeholders (c # cs) = placeholders cs" by auto
    with out ih same show ?thesis by simp
  qed
qed

lemma renumber_length: "length (renumber conds k) = length conds"
  by (induction conds arbitrary: k) (auto split: prod.splits)

lemma renumber_numbers:
  "concat (map placeholders (renumber conds k)) =
     [k ..< k + length (concat (map placeholders conds))]"
proof (induction conds arbitrary: k)
  case Nil
  then show ?case by simp
next
  case (Cons cond conds)
  show ?case
  proof (cases "CHR ''$'' \<in> set cond")
    case True
    obtain c' k' where r: "replace_placeholders cond k = (c', k')"
      by (cases "replace_placeholders cond k") auto
    from replace_placeholders_numbers [of cond k] r
    have c': "placeholders c' = [k ..< k + length (placeholders cond)]"
      and k': "k' = k + length (placeholders cond)" by simp_all
    have "[k ..< k + length (placeholders cond)] @
          [k + length (placeholders cond) ..<
             k + length (placeholders cond) + length (concat (map placeholders conds))] =
          [k ..< k + length (placeholders cond) + length (concat (map placeholders conds))]"
      by (simp add: upt_add_eq_append [symmetric])
    with True r c' k' Cons.IH [of k'] show ?thesis
      by (simp add: add.assoc)
  next
    case False
    with Cons.IH [of k] show ?thesis
      by (simp add: placeholders_no_dollar_Nil)
  qed
qed

lemma placeholders_join:
  assumes "CHR ''$'' \<notin> set sep" "sep \<noteq> []" "\<not> is_digit (hd sep)"
  shows "placeholders (join sep xs) = concat (map placeholders xs)"
proof (induction xs rule: induct_list012)
  case 1
  then show ?case by simp
next
  case (2 x)
  then show ?case by simp
next
  case (3 x y ys)
  have "stops (sep @ join sep (y # ys))"
    using assms by (simp add: stops_def hd_append)
  then have "placeholders (x @ sep @ join sep (y # ys)) =
      placeholders x @ placeholders (sep @ join sep (y # ys))"
    by (rule placeholders_append)
  with 3 assms show ?case
    by (simp add: placeholders_no_dollar)
qed

lemma concat_map_single:
  "(\<And>x. x \<in> set xs \<Longrightarrow> f x = [g x]) \<Longrightarrow> concat (map f xs) = map g xs"
  by (induction xs) auto

lemma placeholders_column:
  "CHR ''$'' \<notin> set col \<Longrightarrow> placeholders (col @ '' = $'' @ show_nat n) = [n]"
proof -
  assume c: "CHR ''$'' \<notin> set col"
  have "placeholders ((col @ '' = '') @ (''$'' @ show_nat n @ [])) = placeholders (''$'' @ show_nat n @ [])"
    using c by (intro placeholders_no_dollar) simp
  also have "\<dots> = n # placeholders []"
    by (rule placeholders_dollar_number) (simp add: stops_def)
  finally show ?thesis by simp
qed

lemma placeholders_setClause:
  assumes "\<forall>col \<in> set columns. CHR ''$'' \<notin> set col"
  shows "placeholders (setClause columns) = [1 ..< Suc (length columns)]"
proof -
  let ?f = "\<lambda>(col, i). col @ '' = $'' @ show_nat (i + 1)"
  let ?z = "zip columns [0 ..< length columns]"
  have "placeholders (setClause columns) = concat (map placeholders (map ?f ?z))"
    unfolding setClause_def by (rule placeholders_join) (simp_all add: is_digit_def)
  also have "\<dots> = concat (map (\<lambda>x. placeholders (?f x)) ?z)"
    by (simp add: comp_def)
  also have "\<dots> = map (\<lambda>x. Suc (snd x)) ?z"
  proof (rule concat_map_single)
    fix x assume x: "x \<in> set ?z"
    obtain col i where ci: "x = (col, i)" by (cases x)
    with x have "col \<in> set columns" by (auto dest: set_zip_leftD)
    with assms have "CHR ''$'' \<notin> set col" by blast
    with ci placeholders_column [of col "Suc i"] show "placeholders (?f x) = [Suc (snd x)]"
      by simp
  qed
  also have "\<dots> = map Suc (map snd ?z)" by (simp only: map_map comp_def)
  also have "\<dots> = [1 ..< Suc (length columns)]"
    by (simp add: map_Suc_upt)
  finally show ?thesis .
qed

lemma placeholders_update_query:
  assumes "CHR ''$'' \<notin> set (tableName qb)"
    and "\<forall>col \<in> set (map fst data). CHR ''$'' \<notin> set col"
  shows "placeholders (update_query data qb) =
    [1 ..< Suc (length data) + length (concat (map placeholders (whereConditions qb)))]"
proof -
  let ?n = "length data"
  let ?conds = "renumber (whereConditions qb) (?n + 1)"
  let ?q = "''UPDATE '' @ tableName qb @ '' SET '' @ setClause (map fst data)"
  have q: "placeholders ?q = [1 ..< Suc ?n]"
  proof -
    have "placeholders ((''UPDATE '' @ tableName qb @ '' SET '') @ setClause (map fst data)) =
        placeholders (setClause (map fst data))"
      using assms(1) by (intro placeholders_no_dollar) simp
    with placeholders_setClause [OF assms(2)] show ?thesis by simp
  qed
  show ?thesis
  proof (cases "whereConditions qb = []")
    case True
    with q show ?thesis by (simp add: update_query_def)
  next
    case False
    then have ne: "?conds \<noteq> []"
      using renumber_length [of "whereConditions qb" "?n + 1"] by auto
    have w: "placeholders ('' WHERE '' @ join '' AND '' ?conds) =
        [Suc ?n ..< Suc ?n + length (concat (map placeholders (whereConditions qb)))]"
    proof -
      have "placeholders ('' WHERE '' @ join '' AND '' ?conds) = placeholders (join '' AND '' ?conds)"
        by (intro placeholders_no_dollar) simp
      also have "\<dots> = concat (map placeholders ?conds)"
        by (rule placeholders_join) (simp_all add: is_digit_def)
      finally show ?thesis using renumber_numbers [of "whereConditions qb" "?n + 1"] by simp
    qed
    have eq: "update_query data qb = ?q @ ('' WHERE '' @ join '' AND '' ?conds)"
      using ne by (simp add: update_query_def Let_def)
    have "placeholders (update_query data qb) =
        placeholders ?q @ placeholders ('' WHERE '' @ join '' AND '' ?conds)"
      unfolding eq by (rule placeholders_append) (simp add: stops_def is_digit_def)
    also have "\<dots> = [1 ..< Suc ?n] @
        [Suc ?n ..< Suc ?n + length (concat (map placeholders (whereConditions qb)))]"
      by (simp only: q w)
    also have "\<dots> = [1 ..< Suc ?n + length (concat (map placeholders (whereConditions qb)))]"
      by (rule upt_add_eq_append [symmetric]) simp
    finally show ?thesis .
  qed
qed

lemma placeholders_in_list:
  "placeholders (join '', '' (map (\<lambda>i. ''$'' @ show_nat i) ns) @ '')'') = ns"
proof -
  have "placeholders (join '', '' (map (\<lambda>i. ''$'' @ show_nat i) ns) @ '')'') =
      placeholders (join '', '' (map (\<lambda>i. ''$'' @ show_nat i) ns)) @ placeholders '')''"
    by (rule placeholders_append) (simp add: stops_def is_digit_def)
  also have "placeholders (join '', '' (map (\<lambda>i. ''$'' @ show_nat i) ns)) =
      concat (map placeholders (map (\<lambda>i. ''$'' @ show_nat i) ns))"
    by (rule placeholders_join) (simp_all add: is_digit_def)
  also have "\<dots> = concat (map (\<lambda>i. placeholders (''$'' @ show_nat i)) ns)"
    by (simp add: comp_def)
  also have "\<dots> = map (\<lambda>i. i) ns"
  proof (rule concat_map_single)
    fix i
    from placeholders_dollar_number [of "[]" i]
    show "placeholders (''$'' @ show_nat i) = [i]" by (simp add: stops_def)
  qed
  finally show ?thesis by simp
qed

lemma where_entry_adds:
  assumes k: "CHR ''$'' \<notin> set key"
  shows "\<exists>c ps. whereConditions (where_entry qb (key, val)) = whereConditions qb @ [c] \<and>
           whereParams (where_entry qb (key, val)) = whereParams qb @ ps \<and>
           paramCounter (where_entry qb (key, val)) = paramCounter qb + length ps \<and>
           placeholders c = [paramCounter qb ..< paramCounter qb + length ps]"
proof (cases "val = JNull \<or> val = JUndefined")
  case True
  have "placeholders (key @ '' IS NULL'') = []"
    using k by (intro placeholders_no_dollar_Nil) simp
  with True show ?thesis
    by (simp add: where_entry_def)
next
  case False
  have scalar: "placeholders (key @ '' = $'' @ show_nat (paramCounter qb)) =
      [paramCounter qb ..< paramCounter qb + length [val]]"
    using placeholders_column [OF k, of "paramCounter qb"] by simp
  show ?thesis
  proof (cases val)
    case (JArr vs)
    let ?ns = "[paramCounter qb ..< paramCounter qb + length vs]"
    have "placeholders ((key @ '' IN ('') @
            (join '', '' (map (\<lambda>i. ''$'' @ show_nat i) ?ns) @ '')'')) =
          placeholders (join '', '' (map (\<lambda>i. ''$'' @ show_nat i) ?ns) @ '')'')"
      using k by (intro placeholders_no_dollar) simp
    then have "placeholders (key @ '' IN ('' @
            join '', '' (map (\<lambda>i. ''$'' @ show_nat i) ?ns) @ '')'') = ?ns"
      using placeholders_in_list [of ?ns] by simp
    with JArr show ?thesis
      by (simp add: where_entry_def)
  next
    case JUndefined
    with False show ?thesis by simp
  next
    case JNull
    with False show ?thesis by simp
  next
    case (JBool b)
    with scalar show ?thesis by (simp add: where_entry_def)
  next
    case (JNum i)
    with scalar show ?thesis by (simp add: where_entry_def)
  next
    case (JStr str)
    with scalar show ?thesis by (simp add: where_entry_def)
  next
    case JFunc
    with scalar show ?thesis by (simp add: where_entry_def)
  qed
qed

lemma where_entry_numbered:
  assumes n: "numbered qb" and k: "CHR ''$'' \<notin> set key"
  shows "numbered (where_entry qb (key, val))"
proof -
  from where_entry_adds [OF k, of qb val] obtain c ps where
    a: "whereConditions (where_entry qb (key, val)) = whereConditions qb @ [c]"
       "whereParams (where_entry qb (key, val)) = whereParams qb @ ps"
       "paramCounter (where_entry qb (key, val)) = paramCounter qb + length ps"
       "placeholders c = [paramCounter qb ..< paramCounter qb + length ps]"
    by blast
  from n have c: "concat (map placeholders (whereConditions qb)) = [1 ..< paramCounter qb]"
    and p: "paramCounter qb = Suc (length (whereParams qb))"
    by (simp_all add: numbered_def)
  have "[1 ..< paramCounter qb] @ [paramCounter qb ..< paramCounter qb + length ps] =
      [1 ..< paramCounter qb + length ps]"
    using p by (intro upt_add_eq_append [symmetric]) simp
  with a c p show ?thesis
    by (simp add: numbered_def)
qed

lemma where_objects_numbered:
  "numbered qb \<Longrightarrow> \<forall>key \<in> fst ` set ob. CHR ''$'' \<notin> set key \<Longrightarrow>
   numbered (QueryBuilder_where (CObject ob) v qb)"
proof (induction ob arbitrary: qb)
  case Nil
  then show ?case by (simp add: QueryBuilder_where_def)
next
  case (Cons kv ob)
  obtain key val where kv: "kv = (key, val)" by (cases kv)
  with Cons.prems have "numbered (where_entry qb (key, val))"
    by (intro where_entry_numbered) auto
  with Cons.IH [of "where_entry qb (key, val)"] Cons.prems kv show ?case
    by (simp add: QueryBuilder_where_def)
qed

lemma new_QueryBuilder_numbered: "numbered (new_QueryBuilder t cl pkt pk)"
  by (simp add: numbered_def new_QueryBuilder_def)

lemma numbered_where_clause:
  assumes "numbered qb"
  shows "placeholders (buildWhereClause qb) = [1 ..< Suc (length (whereParams qb))]"
proof (cases "whereConditions qb = []")
  case True
  with assms show ?thesis
    by (auto simp: numbered_def buildWhereClause_def)
next
  case False
  have "placeholders (''WHERE '' @ join '' AND '' (whereConditions qb)) =
      placeholders (join '' AND '' (whereConditions qb))"
    by (intro placeholders_no_dollar) simp
  also have "\<dots> = concat (map placeholders (whereConditions qb))"
    by (rule placeholders_join) (simp_all add: is_digit_def)
  finally show ?thesis
    using False assms by (simp add: numbered_def buildWhereClause_def)
qed

text \<open>
  Object conditions alone keep a builder numbered: from a new builder, any sequence of
  \<open>where\<close> calls with objects whose keys hold no \<open>$\<close> gives one condition per key, and
  the WHERE clause carries the placeholders \<open>$1 .. $n\<close> in order for its \<open>n\<close> parameters.
\<close>

lemma object_conditions_numbering:
  assumes "\<forall>ob \<in> set obs. \<forall>key \<in> fst ` set ob. CHR ''$'' \<notin> set key"
    and "qb = foldl (\<lambda>b ob. QueryBuilder_where (CObject ob) JUndefined b)
                 (new_QueryBuilder t cl pkt pk) obs"
  shows "numbered qb \<and> length (whereConditions qb) = length (concat obs) \<and>
         placeholders (buildWhereClause qb) = [1 ..< Suc (length (whereParams qb))]"
proof -
  have step: "\<And>b. numbered b \<Longrightarrow>
      numbered (foldl (\<lambda>b ob. QueryBuilder_where (CObject ob) JUndefined b) b obs) \<and>
      length (whereConditions (foldl (\<lambda>b ob. QueryBuilder_where (CObject ob) JUndefined b) b obs)) =
        length (whereConditions b) + length (concat obs)"
    using assms(1)
  proof (induction obs)
    case Nil
    then show ?case by simp
  next
    case (Cons ob obs)
    from Cons.prems have n: "numbered (QueryBuilder_where (CObject ob) JUndefined b)"
      by (intro where_objects_numbered) auto
    have l: "length (whereConditions (QueryBuilder_where (CObject ob) JUndefined b)) =
        length (whereConditions b) + length ob"
      by (simp add: QueryBuilder_where_def foldl_where_entry_conditions)
    from Cons.IH [OF n] Cons.prems l show ?case by simp
  qed
  from step [OF new_QueryBuilder_numbered, of t cl pkt pk] assms(2)
  have "numbered qb" and "length (whereConditions qb) = length (concat obs)"
    by (simp_all add: new_QueryBuilder_def)
  with numbered_where_clause [of qb] show ?thesis by simp
qed

text \<open>
  Claim C1, evaluated where it fails. The builder of the README's own example,
  \<open>where({active: true}).where('age > $1', 18)\<close>: \<open>select\<close>, \<open>count\<close> and \<open>delete\<close>
  render the raw fragment as it was written, so the text carries \<open>$1\<close> twice for the two
  parameters. \<open>update\<close> renumbers the same conditions to \<open>$2\<close> and \<open>$3\<close>.
\<close>

theorem raw_fragment_not_renumbered_by_select:
  "select_query [''*''] readme_mixed = ''SELECT * FROM users WHERE active = $1 AND age > $1'' \<and>
   count_query readme_mixed =
     ''SELECT COUNT(*) as count FROM users WHERE active = $1 AND age > $1'' \<and>
   delete_query readme_mixed = ''DELETE FROM users WHERE active = $1 AND age > $1'' \<and>
   whereParams readme_mixed = [JBool True, JNum (Whole 18)] \<and>
   placeholders (select_query [''*''] readme_mixed) = [1, 1] \<and>
   update_query [(''name'', JStr ''Jane'')] readme_mixed =
     ''UPDATE users SET name = $1 WHERE active = $2 AND age > $3'' \<and>
   update_params [(''name'', JStr ''Jane'')] readme_mixed = [JStr ''Jane'', JBool True, JNum (Whole 18)]"
  by code_simp












text \<open>
  Equal totals are not enough. A raw fragment without a placeholder but with a value,
  followed by one with a placeholder and a value and one with a placeholder and no
  value, gives as many placeholders as values, and the condition on \<open>x\<close> is rendered with
  the position of the value that came with \<open>z > 0\<close>. The first step is not well paired.
\<close>

lemma mispaired_update:
  "update_query [(''name'', JStr ''n'')] mispaired =
     ''UPDATE users SET name = $1 WHERE z > 0 AND x = $2 AND y = $3'' \<and>
   update_params [(''name'', JStr ''n'')] mispaired =
     [JStr ''n'', JNum (Whole 8), JNum (Whole 7)] \<and>
   \<not> well_paired (Raw ''z > 0'' (JNum (Whole 8)))"
  by code_simp

section \<open>Primary keys: insert and save\<close>

lemma set_prop_absent: "k \<notin> fst ` set ob \<Longrightarrow> set_prop k v ob = ob @ [(k, v)]"
  by (induction ob) auto

text \<open>
  Claim C8, as amended. Under the uuid strategy \<open>insert(data)\<close> puts a generated
  identifier into the inserted data when the primary-key field is absent from \<open>data\<close> or
  holds a falsy value (undefined, null, false, 0, the empty string): an absent key is
  added last, a falsy one is replaced in place. A truthy primary-key value supplied by
  the caller is used as it is, and under the serial strategy the data are never changed.
  The statement run carries the values of these data as its parameters, for \<open>insert\<close>
  and for the mapper's \<open>create\<close>, which delegates to it.
\<close>

theorem insert_primary_key:
  "(primaryKeyType qb = uuid \<and> \<not> truthy (get_prop data (primaryKey qb)) \<longrightarrow>
      insert_data g data qb = set_prop (primaryKey qb) (JStr g) data \<and>
      get_prop (insert_data g data qb) (primaryKey qb) = JStr g \<and>
      (primaryKey qb \<notin> fst ` set data \<longrightarrow>
         insert_data g data qb = data @ [(primaryKey qb, JStr g)])) \<and>
   (primaryKeyType qb = uuid \<and> truthy (get_prop data (primaryKey qb)) \<longrightarrow>
      insert_data g data qb = data) \<and>
   (primaryKeyType qb = serial \<longrightarrow> insert_data g data qb = data) \<and>
   QueryBuilder_insert e data qb w =
     and_then (Database_query e
                 (insert_query (insert_data (randomUUID e (events w)) data qb) qb)
                 (map snd (insert_data (randomUUID e (events w)) data qb)) (client qb) w)
       first_row \<and>
   Model_create e m data cl w =
     and_then (Database_query e
                 (insert_query (insert_data (randomUUID e (events w)) data (Model_query m cl))
                    (Model_query m cl))
                 (map snd (insert_data (randomUUID e (events w)) data (Model_query m cl))) cl w)
       (\<lambda>r. Object_assign_opt (construct m) (first_row r))"
  by (simp add: insert_data_def QueryBuilder_insert_def Model_create_def Let_def
        get_prop_set_prop set_prop_absent and_then_twice Model_query_def new_QueryBuilder_def)

theorem insert_primary_key_witness:
  "primaryKeyType (Model_query Product None) = uuid \<and>
   primaryKey (Model_query Product None) = ''id'' \<and>
   \<not> truthy (get_prop [(''name'', JStr ''Laptop'')] ''id'') \<and>
   ''id'' \<notin> fst ` set [(''name'', JStr ''Laptop'')] \<and>
   insert_data ''3f2b8c1e'' [(''name'', JStr ''Laptop'')] (Model_query Product None) =
     [(''name'', JStr ''Laptop''), (''id'', JStr ''3f2b8c1e'')] \<and>
   truthy (get_prop [(''id'', JStr ''my-id''), (''name'', JStr ''Laptop'')] ''id'') \<and>
   insert_data ''3f2b8c1e'' [(''id'', JStr ''my-id''), (''name'', JStr ''Laptop'')]
     (Model_query Product None) = [(''id'', JStr ''my-id''), (''name'', JStr ''Laptop'')] \<and>
   primaryKeyType (Model_query User None) = serial \<and>
   insert_data ''3f2b8c1e'' [(''name'', JStr ''Bob'')] (Model_query User None) =
     [(''name'', JStr ''Bob'')]"
proof -
  have a: "primaryKeyType (Model_query Product None) = uuid"
    "primaryKey (Model_query Product None) = ''id''"
    "primaryKeyType (Model_query User None) = serial"
    by (simp_all add: Model_query_def new_QueryBuilder_def Product_def User_def
          getPrimaryKeyType_def getPrimaryKey_def)
  have b: "\<not> truthy (get_prop [(''name'', JStr ''Laptop'')] ''id'')"
    "''id'' \<notin> fst ` set [(''name'', JStr ''Laptop'')]"
    "truthy (get_prop [(''id'', JStr ''my-id''), (''name'', JStr ''Laptop'')] ''id'')"
    by (simp_all add: get_prop_def)
  show ?thesis
    using a b
      insert_primary_key [where qb = "Model_query Product None"
        and data = "[(''name'', JStr ''Laptop'')]" and g = "''3f2b8c1e''"]
      insert_primary_key [where qb = "Model_query Product None"
        and data = "[(''id'', JStr ''my-id''), (''name'', JStr ''Laptop'')]" and g = "''3f2b8c1e''"]
      insert_primary_key [where qb = "Model_query User None"
        and data = "[(''name'', JStr ''Bob'')]" and g = "''3f2b8c1e''"]
    by simp
qed

text \<open>
  The claim as first stated has every explicit primary-key value used as it is. The
  empty string is explicit and falsy: the INSERT carries the generated identifier.
\<close>

theorem insert_primary_key_counterexample:
  "primaryKeyType (Model_query Product None) = uuid \<and>
   get_prop [(''id'', JStr []), (''name'', JStr ''Laptop'')] ''id'' = JStr [] \<and>
   QueryBuilder_insert ok_env [(''id'', JStr []), (''name'', JStr ''Laptop'')]
     (Model_query Product None) w0 =
     (Inr None,
      \<lparr>connected = True,
       events = [Query None
         ''\<newline>      INSERT INTO products (id, name)\<newline>      VALUES ($1, $2)\<newline>      RETURNING *\<newline>    ''
         [JStr ''3f2b8c1e-5a4d-4e6f-9b7a-0c1d2e3f4a5b'', JStr ''Laptop'']]\<rparr>)"
  by code_simp

lemma replace_placeholders_prefix:
  "CHR ''$'' \<notin> set a \<Longrightarrow>
   replace_placeholders (a @ b) k = (case replace_placeholders b k of (r, k') \<Rightarrow> (a @ r, k'))"
  by (induction a) (auto split: prod.splits)

lemma replace_placeholders_one: "replace_placeholders ''$1'' k = (''$'' @ show_nat k, Suc k)"
  by (simp add: is_digit_def)

lemma where_key_scalar:
  assumes "truthy v" "\<forall>vs. v \<noteq> JArr vs"
  shows "whereConditions (QueryBuilder_where (CObject [(pk, v)]) JUndefined
           (new_QueryBuilder t cl pkt pk')) = [pk @ '' = $1''] \<and>
         whereParams (QueryBuilder_where (CObject [(pk, v)]) JUndefined
           (new_QueryBuilder t cl pkt pk')) = [v]"
  using assms
  by (cases v) (simp_all add: QueryBuilder_where_def where_entry_def new_QueryBuilder_def
        show_nat.simps digit_char_def)

lemma save_update_statement:
  assumes "CHR ''$'' \<notin> set pk" "truthy v" "\<forall>vs. v \<noteq> JArr vs"
  shows "update_query data (QueryBuilder_where (CObject [(pk, v)]) JUndefined
           (new_QueryBuilder t cl pkt pk')) =
         ''UPDATE '' @ t @ '' SET '' @ setClause (map fst data) @ '' WHERE '' @ pk @ '' = $'' @
           show_nat (length data + 1) \<and>
         update_params data (QueryBuilder_where (CObject [(pk, v)]) JUndefined
           (new_QueryBuilder t cl pkt pk')) = map snd data @ [v]"
proof -
  let ?b = "QueryBuilder_where (CObject [(pk, v)]) JUndefined (new_QueryBuilder t cl pkt pk')"
  from where_key_scalar [OF assms(2,3), of pk t cl pkt pk']
  have c: "whereConditions ?b = [pk @ '' = $1'']" and p: "whereParams ?b = [v]"
    by simp_all
  have t: "tableName ?b = t"
    using foldl_where_entry_clauses [of "new_QueryBuilder t cl pkt pk'" "[(pk, v)]"]
    by (simp add: QueryBuilder_where_def new_QueryBuilder_def)
  have "replace_placeholders ((pk @ '' = '') @ ''$1'') (length data + 1) =
      ((pk @ '' = '') @ ''$'' @ show_nat (length data + 1), Suc (length data + 1))"
    using assms(1)
    by (subst replace_placeholders_prefix)
       (simp_all add: replace_placeholders_one del: replace_placeholders.simps)
  then have "renumber [pk @ '' = $1''] (length data + 1) =
      [pk @ '' = $'' @ show_nat (length data + 1)]"
    by (simp del: replace_placeholders.simps)
  with c p t show ?thesis
    by (simp add: update_query_def update_params_def)
qed

text \<open>
  Claim C9, as amended. The data of \<open>save()\<close> are the instance's own fields other than
  the primary key and the function-valued members. When the primary key holds a truthy
  value, \<open>save()\<close> runs an update with these data as SET data, keyed on the primary-key
  value (\<open>WHERE pk = $N+1\<close> for a key name without \<open>$\<close> and a value that is no array),
  and takes over the columns of the first returned row, if any. When the primary key is
  absent or falsy (undefined, null, false, 0, the empty string), it runs an insert of
  these data and copies every column of the returned row onto the instance. Copying a
  row sets exactly the row's columns, so the primary key changes only if the row carries
  another one.
\<close>

theorem save_dispatch:
  "set (save_data (getPrimaryKey m) this) =
     {(key, v). (key, v) \<in> set this \<and> key \<noteq> getPrimaryKey m \<and> v \<noteq> JFunc} \<and>
   (truthy (get_prop this (getPrimaryKey m)) \<longrightarrow>
      (let pk = getPrimaryKey m; data = save_data pk this;
           b = QueryBuilder_where (CObject [(pk, get_prop this pk)]) JUndefined (Model_query m cl)
       in Model_save e m this cl w =
            and_then (Database_query e (update_query data b) (update_params data b) cl w)
              (\<lambda>r. if rows r \<noteq> [] then Object_assign this (hd (rows r)) else this) \<and>
          (CHR ''$'' \<notin> set pk \<and> (\<forall>vs. get_prop this pk \<noteq> JArr vs) \<longrightarrow>
             update_query data b =
               ''UPDATE '' @ getTableName m @ '' SET '' @ setClause (map fst data) @
               '' WHERE '' @ pk @ '' = $'' @ show_nat (length data + 1) \<and>
             update_params data b = map snd data @ [get_prop this pk]))) \<and>
   (\<not> truthy (get_prop this (getPrimaryKey m)) \<longrightarrow>
      (let pk = getPrimaryKey m; data = save_data pk this;
           ins = insert_data (randomUUID e (events w)) data (Model_query m cl)
       in Model_save e m this cl w =
            and_then (Database_query e (insert_query ins (Model_query m cl)) (map snd ins) cl w)
              (\<lambda>r. Object_assign_opt this (first_row r)))) \<and>
   (distinct (map fst row) \<longrightarrow>
      get_prop (Object_assign this row) k =
        (if k \<in> fst ` set row then get_prop row k else get_prop this k))"
proof -
  let ?pk = "getPrimaryKey m"
  let ?data = "save_data ?pk this"
  let ?b = "QueryBuilder_where (CObject [(?pk, get_prop this ?pk)]) JUndefined (Model_query m cl)"
  have d: "set ?data = {(key, v). (key, v) \<in> set this \<and> key \<noteq> ?pk \<and> v \<noteq> JFunc}"
    by (auto simp: save_data_def)
  have cb: "client ?b = cl"
    using foldl_where_entry_clauses [of "Model_query m cl" "[(?pk, get_prop this ?pk)]"]
    by (simp add: QueryBuilder_where_def Model_query_def new_QueryBuilder_def)
  have u: "truthy (get_prop this ?pk) \<Longrightarrow> Model_save e m this cl w =
      and_then (Database_query e (update_query ?data ?b) (update_params ?data ?b) cl w)
        (\<lambda>r. if rows r \<noteq> [] then Object_assign this (hd (rows r)) else this)"
    by (simp add: Model_save_def Let_def QueryBuilder_update_def and_then_twice cb)
  have s: "truthy (get_prop this ?pk) \<Longrightarrow> CHR ''$'' \<notin> set ?pk \<Longrightarrow>
      \<forall>vs. get_prop this ?pk \<noteq> JArr vs \<Longrightarrow>
      update_query ?data ?b =
        ''UPDATE '' @ getTableName m @ '' SET '' @ setClause (map fst ?data) @
        '' WHERE '' @ ?pk @ '' = $'' @ show_nat (length ?data + 1) \<and>
      update_params ?data ?b = map snd ?data @ [get_prop this ?pk]"
    unfolding Model_query_def by (rule save_update_statement)
  have i: "\<not> truthy (get_prop this ?pk) \<Longrightarrow> Model_save e m this cl w =
      (let ins = insert_data (randomUUID e (events w)) ?data (Model_query m cl)
       in and_then (Database_query e (insert_query ins (Model_query m cl)) (map snd ins) cl w)
            (\<lambda>r. Object_assign_opt this (first_row r)))"
    by (simp add: Model_save_def Let_def QueryBuilder_insert_def and_then_twice
          Model_query_def new_QueryBuilder_def)
  have a: "distinct (map fst row) \<Longrightarrow> get_prop (Object_assign this row) k =
        (if k \<in> fst ` set row then get_prop row k else get_prop this k)"
    by (rule get_prop_Object_assign)
  show ?thesis
    using d u s i a by (simp add: Let_def)
qed

theorem save_dispatch_witness:
  "truthy (get_prop bobby (getPrimaryKey User)) \<and>
   CHR ''$'' \<notin> set (getPrimaryKey User) \<and>
   (\<forall>vs. get_prop bobby (getPrimaryKey User) \<noteq> JArr vs) \<and>
   Model_save bob_env User bobby None w0 =
     (Inr [(''id'', JNum (Whole 5)), (''name'', JStr ''Bob''), (''greet'', JFunc)],
      \<lparr>connected = True,
       events = [Query None ''UPDATE users SET name = $1 WHERE id = $2''
                   [JStr ''Bobby'', JNum (Whole 5)]]\<rparr>) \<and>
   \<not> truthy (get_prop unsaved_bob (getPrimaryKey User)) \<and>
   Model_save bob_env User unsaved_bob None w0 =
     (Inr [(''name'', JStr ''Bob''), (''id'', JNum (Whole 5))],
      \<lparr>connected = True,
       events = [Query None
         ''\<newline>      INSERT INTO users (name)\<newline>      VALUES ($1)\<newline>      RETURNING *\<newline>    ''
         [JStr ''Bob'']]\<rparr>) \<and>
   distinct (map fst [(''id'', JNum (Whole 5)), (''name'', JStr ''Bob'')]) \<and>
   get_prop (Object_assign unsaved_bob [(''id'', JNum (Whole 5)), (''name'', JStr ''Bob'')]) ''id'' =
     JNum (Whole 5)"
proof -
  have a: "truthy (get_prop bobby (getPrimaryKey User))"
    "CHR ''$'' \<notin> set (getPrimaryKey User)"
    "\<not> truthy (get_prop unsaved_bob (getPrimaryKey User))"
    by code_simp+
  have b: "\<forall>vs. get_prop bobby (getPrimaryKey User) \<noteq> JArr vs"
    by (simp add: get_prop_def bobby_def getPrimaryKey_def User_def)
  have c: "Model_save bob_env User bobby None w0 =
     (Inr [(''id'', JNum (Whole 5)), (''name'', JStr ''Bob''), (''greet'', JFunc)],
      \<lparr>connected = True,
       events = [Query None ''UPDATE users SET name = $1 WHERE id = $2''
                   [JStr ''Bobby'', JNum (Whole 5)]]\<rparr>)"
    by code_simp
  have d: "Model_save bob_env User unsaved_bob None w0 =
     (Inr [(''name'', JStr ''Bob''), (''id'', JNum (Whole 5))],
      \<lparr>connected = True,
       events = [Query None
         ''\<newline>      INSERT INTO users (name)\<newline>      VALUES ($1)\<newline>      RETURNING *\<newline>    ''
         [JStr ''Bob'']]\<rparr>)"
    by code_simp
  have f: "get_prop [(''id'', JNum (Whole 5)), (''name'', JStr ''Bob'')] ''id'' = JNum (Whole 5)"
    by code_simp
  show ?thesis
    using a b c d f
      save_dispatch [where m = User and this = bobby and cl = None and e = bob_env and w = w0
        and row = "[(''id'', JNum (Whole 5)), (''name'', JStr ''Bob'')]" and k = "''id''"]
      save_dispatch [where m = User and this = unsaved_bob and cl = None and e = bob_env
        and w = w0 and row = "[(''id'', JNum (Whole 5)), (''name'', JStr ''Bob'')]" and k = "''id''"]
    by simp
qed

text \<open>
  The claim as first stated has a set primary key select the update. A primary key of 0
  is set and falsy: \<open>save()\<close> runs an INSERT without it.
\<close>

theorem save_dispatch_counterexample:
  "get_prop bob_zero (getPrimaryKey User) = JNum (Whole 0) \<and>
   Model_save ok_env User bob_zero None w0 =
     (Inr [(''id'', JNum (Whole 0)), (''name'', JStr ''Bob'')],
      \<lparr>connected = True,
       events = [Query None
         ''\<newline>      INSERT INTO users (name)\<newline>      VALUES ($1)\<newline>      RETURNING *\<newline>    ''
         [JStr ''Bob'']]\<rparr>)"
  by code_simp

end
